theory Spec2Isabelle
  imports Complex_Main
begin

section \<open>Portfolio-web: session-authenticated backend (src/server.js, src/db.js)\<close>

text \<open>
  The development embeds the six request handlers of \<^verbatim>\<open>src/server.js\<close> together with
  the two tables of \<^verbatim>\<open>src/db.js\<close>.  Every handler is a function from the request, the
  per-request environment and the state (database and the caller's session) to the
  response and the new state.  A rejected \<^verbatim>\<open>pool.query\<close> promise is a value of type
  \<open>exn\<close>, so that each \<^verbatim>\<open>catch\<close> block is a branch of the model.  The routes put the
  outcome of the body parsers in front of the handlers: an error raised before a
  handler's \<^verbatim>\<open>try\<close> block is answered by the error page of Express.

  Scope of the model:
  \<^item> the fields of a registration and of a contact submission, the identifier of a login
    and the query parameters are strings or absent; the password of a login is any JSON
    value or absent;
  \<^item> strings are lists of bytes (UTF-8); identifiers and counts are unbounded;
  \<^item> a number that a handler computes is the integer it denotes, rounded to a double
    after every operation;
  \<^item> a handler runs against the database without interleaving with other requests, and
    a rejected statement leaves the tables as they were;
  \<^item> a \<^verbatim>\<open>SELECT\<close> without \<^verbatim>\<open>ORDER BY\<close> returns the rows in table order, and
    \<^verbatim>\<open>ORDER BY created_at DESC\<close> breaks ties by one fixed rule (MySQL leaves both open);
  \<^item> timestamps are natural numbers, in the tables and in the response bodies;
  \<^item> the expiry of a session after 24 hours is outside the model.
\<close>

subsection \<open>Tables (src/db.js, lines 33-54)\<close>

record user_row =
  u_id :: nat
  u_username :: string
  u_email :: string
  u_password :: string
  u_created_at :: nat

record message_row =
  m_id :: nat
  m_user_id :: "nat option"
  m_name :: string
  m_email :: string
  m_subject :: string
  m_message :: string
  m_created_at :: nat

text \<open>
  \<open>users_last_id\<close> and \<open>messages_last_id\<close> are the last \<^verbatim>\<open>AUTO_INCREMENT\<close> values handed
  out; the next row gets the successor, so generated identifiers are never 0.
\<close>

record database =
  users :: "user_row list"
  messages :: "message_row list"
  users_last_id :: nat
  messages_last_id :: nat

subsection \<open>Session, environment, responses\<close>

text \<open>\<^verbatim>\<open>req.session\<close>: both members are absent until a handler assigns them.\<close>

record session =
  sess_userId :: "nat option"
  sess_username :: "string option"

record state =
  db :: database
  sess :: session

text \<open>
  Library behaviour the handlers rely on and the repository does not contain:
  the equality MySQL uses on the \<^verbatim>\<open>utf8mb4_unicode_ci\<close> columns (src/db.js, line 27),
  and the two bcryptjs functions.
\<close>

record lib =
  collate_eq :: "string \<Rightarrow> string \<Rightarrow> bool"
  bcrypt_hash :: "string \<Rightarrow> nat \<Rightarrow> string \<Rightarrow> string"
  bcrypt_compare :: "string \<Rightarrow> string \<Rightarrow> bool"

text \<open>
  What one request draws from its surroundings: \<open>fail_at = Some k\<close> says that the
  \<open>k\<close>-th \<^verbatim>\<open>pool.query\<close> call of the handler (counted from 0 in execution order) is
  rejected: the connection is lost, or the server refuses the statement for a reason that
  is not modelled, such as a value longer than its column (\<^verbatim>\<open>VARCHAR(50)\<close> for a username)
  under the strict SQL mode.  The refusals that the schema and the statement determine
  (unique columns, the foreign key, a negative offset) are part of the queries below.
  \<open>now\<close> is \<^verbatim>\<open>CURRENT_TIMESTAMP\<close>; \<open>salt\<close> is the salt that \<^verbatim>\<open>bcrypt.hash\<close> generates.
\<close>

record env =
  fail_at :: "nat option"
  now :: nat
  salt :: string

datatype exn = QueryRejected nat | ConstraintViolation | SyntaxError | IllegalArguments

datatype json =
    JNull
  | JBool bool
  | JNum int
  | JStr string
  | JArr "json list"
  | JObj "(string \<times> json) list"

record response =
  status :: nat
  body :: json

text \<open>\<^verbatim>\<open>res.json(x)\<close> answers with status 200, \<^verbatim>\<open>res.status(c).json(x)\<close> with \<open>c\<close>.\<close>

definition res_json :: "json \<Rightarrow> response" where
  "res_json x = \<lparr>status = 200, body = x\<rparr>"

definition res_status_json :: "nat \<Rightarrow> json \<Rightarrow> response" where
  "res_status_json c x = \<lparr>status = c, body = x\<rparr>"

definition field :: "string \<Rightarrow> json \<Rightarrow> json option" where
  "field k j = (case j of JObj kvs \<Rightarrow> map_of kvs k | _ \<Rightarrow> None)"


subsection \<open>Message literals of src/server.js (UTF-8 bytes)\<close>

text \<open>Lines 34, 65 and 109: all fields must be filled in.\<close>

definition msg_fill_all_fields :: string where
  "msg_fill_all_fields =
    [CHR 0xE8, CHR 0xAB, CHR 0x8B, CHR 0xE5, CHR 0xA1, CHR 0xAB, CHR 0xE5, CHR 0xAF, CHR 0xAB,
     CHR 0xE6, CHR 0x89, CHR 0x80, CHR 0xE6, CHR 0x9C, CHR 0x89, CHR 0xE6, CHR 0xAC, CHR 0x84,
     CHR 0xE4, CHR 0xBD, CHR 0x8D]"

text \<open>Line 38: the two passwords differ.\<close>

definition msg_password_mismatch :: string where
  "msg_password_mismatch =
    [CHR 0xE5, CHR 0x85, CHR 0xA9, CHR 0xE6, CHR 0xAC, CHR 0xA1, CHR 0xE8, CHR 0xBC, CHR 0xB8,
     CHR 0xE5, CHR 0x85, CHR 0xA5, CHR 0xE7, CHR 0x9A, CHR 0x84, CHR 0xE5, CHR 0xAF, CHR 0x86,
     CHR 0xE7, CHR 0xA2, CHR 0xBC, CHR 0xE4, CHR 0xB8, CHR 0x8D, CHR 0xE4, CHR 0xB8, CHR 0x80,
     CHR 0xE8, CHR 0x87, CHR 0xB4]"

text \<open>Line 44: username or email already registered.\<close>

definition msg_already_registered :: string where
  "msg_already_registered =
    [CHR 0xE4, CHR 0xBD, CHR 0xBF, CHR 0xE7, CHR 0x94, CHR 0xA8, CHR 0xE8, CHR 0x80, CHR 0x85,
     CHR 0xE5, CHR 0x90, CHR 0x8D, CHR 0xE7, CHR 0xA8, CHR 0xB1, CHR 0xE6, CHR 0x88, CHR 0x96,
     CHR 0x20, CHR 0x45, CHR 0x6D, CHR 0x61, CHR 0x69, CHR 0x6C, CHR 0x20, CHR 0xE5, CHR 0xB7,
     CHR 0xB2, CHR 0xE8, CHR 0xA2, CHR 0xAB, CHR 0xE8, CHR 0xA8, CHR 0xBB, CHR 0xE5, CHR 0x86,
     CHR 0x8A]"

text \<open>Line 53: registration succeeded.\<close>

definition msg_register_ok :: string where
  "msg_register_ok =
    [CHR 0xE8, CHR 0xA8, CHR 0xBB, CHR 0xE5, CHR 0x86, CHR 0x8A, CHR 0xE6, CHR 0x88, CHR 0x90,
     CHR 0xE5, CHR 0x8A, CHR 0x9F, CHR 0xEF, CHR 0xBC, CHR 0x81]"

text \<open>Line 56: registration failed, system error.\<close>

definition msg_register_failed :: string where
  "msg_register_failed =
    [CHR 0xE8, CHR 0xA8, CHR 0xBB, CHR 0xE5, CHR 0x86, CHR 0x8A, CHR 0xE5, CHR 0xA4, CHR 0xB1,
     CHR 0xE6, CHR 0x95, CHR 0x97, CHR 0xEF, CHR 0xBC, CHR 0x8C, CHR 0xE7, CHR 0xB3, CHR 0xBB,
     CHR 0xE7, CHR 0xB5, CHR 0xB1, CHR 0xE9, CHR 0x8C, CHR 0xAF, CHR 0xE8, CHR 0xAA, CHR 0xA4]"

text \<open>Line 75: login succeeded.\<close>

definition msg_login_ok :: string where
  "msg_login_ok =
    [CHR 0xE7, CHR 0x99, CHR 0xBB, CHR 0xE5, CHR 0x85, CHR 0xA5, CHR 0xE6, CHR 0x88, CHR 0x90,
     CHR 0xE5, CHR 0x8A, CHR 0x9F, CHR 0xEF, CHR 0xBC, CHR 0x81]"

text \<open>Line 77: wrong account or password.\<close>

definition msg_bad_credentials :: string where
  "msg_bad_credentials =
    [CHR 0xE5, CHR 0xB8, CHR 0xB3, CHR 0xE8, CHR 0x99, CHR 0x9F, CHR 0xE6, CHR 0x88, CHR 0x96,
     CHR 0xE5, CHR 0xAF, CHR 0x86, CHR 0xE7, CHR 0xA2, CHR 0xBC, CHR 0xE9, CHR 0x8C, CHR 0xAF,
     CHR 0xE8, CHR 0xAA, CHR 0xA4]"

text \<open>Lines 81 and 179: system error.\<close>

definition msg_system_error :: string where
  "msg_system_error =
    [CHR 0xE7, CHR 0xB3, CHR 0xBB, CHR 0xE7, CHR 0xB5, CHR 0xB1, CHR 0xE9, CHR 0x8C, CHR 0xAF,
     CHR 0xE8, CHR 0xAA, CHR 0xA4]"

text \<open>Line 103: please log in as a member first.\<close>

definition msg_login_required_member :: string where
  "msg_login_required_member =
    [CHR 0xE8, CHR 0xAB, CHR 0x8B, CHR 0xE5, CHR 0x85, CHR 0x88, CHR 0xE7, CHR 0x99, CHR 0xBB,
     CHR 0xE5, CHR 0x85, CHR 0xA5, CHR 0xE6, CHR 0x9C, CHR 0x83, CHR 0xE5, CHR 0x93, CHR 0xA1]"

text \<open>Line 117: message sent.\<close>

definition msg_contact_ok :: string where
  "msg_contact_ok =
    [CHR 0xE7, CHR 0x95, CHR 0x99, CHR 0xE8, CHR 0xA8, CHR 0x80, CHR 0xE7, CHR 0x99, CHR 0xBC,
     CHR 0xE9, CHR 0x80, CHR 0x81, CHR 0xE6, CHR 0x88, CHR 0x90, CHR 0xE5, CHR 0x8A, CHR 0x9F,
     CHR 0xEF, CHR 0xBC, CHR 0x81, CHR 0xE6, CHR 0x84, CHR 0x9F, CHR 0xE8, CHR 0xAC, CHR 0x9D,
     CHR 0xE6, CHR 0x82, CHR 0xA8, CHR 0xE7, CHR 0x9A, CHR 0x84, CHR 0xE8, CHR 0x81, CHR 0xAF,
     CHR 0xE7, CHR 0xB9, CHR 0xAB, CHR 0xE3, CHR 0x80, CHR 0x82]"

text \<open>Line 120: sending the message failed, try again later.\<close>

definition msg_contact_failed :: string where
  "msg_contact_failed =
    [CHR 0xE7, CHR 0x95, CHR 0x99, CHR 0xE8, CHR 0xA8, CHR 0x80, CHR 0xE7, CHR 0x99, CHR 0xBC,
     CHR 0xE9, CHR 0x80, CHR 0x81, CHR 0xE5, CHR 0xA4, CHR 0xB1, CHR 0xE6, CHR 0x95, CHR 0x97,
     CHR 0xEF, CHR 0xBC, CHR 0x8C, CHR 0xE8, CHR 0xAB, CHR 0x8B, CHR 0xE7, CHR 0xA8, CHR 0x8D,
     CHR 0xE5, CHR 0xBE, CHR 0x8C, CHR 0xE5, CHR 0x86, CHR 0x8D, CHR 0xE8, CHR 0xA9, CHR 0xA6]"

text \<open>Line 127: please log in first.\<close>

definition msg_login_required :: string where
  "msg_login_required =
    [CHR 0xE8, CHR 0xAB, CHR 0x8B, CHR 0xE5, CHR 0x85, CHR 0x88, CHR 0xE7, CHR 0x99, CHR 0xBB,
     CHR 0xE5, CHR 0x85, CHR 0xA5]"

text \<open>Line 134: insufficient privilege.\<close>

definition msg_forbidden :: string where
  "msg_forbidden =
    [CHR 0xE6, CHR 0xAC, CHR 0x8A, CHR 0xE9, CHR 0x99, CHR 0x90, CHR 0xE4, CHR 0xB8, CHR 0x8D,
     CHR 0xE8, CHR 0xB6, CHR 0xB3]"

subsection \<open>JavaScript helpers\<close>

text \<open>Truthiness of a request field: \<^verbatim>\<open>undefined\<close> and the empty string are falsy.\<close>

definition truthy :: "string option \<Rightarrow> bool" where
  "truthy v = (case v of None \<Rightarrow> False | Some x \<Rightarrow> x \<noteq> [])"

definition str_of :: "string option \<Rightarrow> string" where
  "str_of v = (case v of None \<Rightarrow> [] | Some x \<Rightarrow> x)"

text \<open>
  Truthiness of a JSON value: \<^verbatim>\<open>undefined\<close>, \<^verbatim>\<open>null\<close>, \<^verbatim>\<open>false\<close>, 0 and the empty string are
  falsy, every array and object is truthy.
\<close>

definition truthy_json :: "json option \<Rightarrow> bool" where
  "truthy_json v =
     (case v of
        None \<Rightarrow> False
      | Some JNull \<Rightarrow> False
      | Some (JBool b) \<Rightarrow> b
      | Some (JNum n) \<Rightarrow> n \<noteq> 0
      | Some (JStr x) \<Rightarrow> x \<noteq> []
      | Some (JArr xs) \<Rightarrow> True
      | Some (JObj kvs) \<Rightarrow> True)"

definition value_of :: "json option \<Rightarrow> json" where
  "value_of v = (case v of None \<Rightarrow> JNull | Some x \<Rightarrow> x)"

text \<open>
  \<^verbatim>\<open>bcrypt.compare(s, hash)\<close> rejects with "Illegal arguments" unless both arguments are
  strings; the \<^verbatim>\<open>password\<close> column always holds a string.
\<close>

definition compare :: "lib \<Rightarrow> json \<Rightarrow> string \<Rightarrow> exn + bool" where
  "compare L s hash =
     (case s of JStr p \<Rightarrow> Inr (bcrypt_compare L p hash) | _ \<Rightarrow> Inl IllegalArguments)"

text \<open>Truthiness of \<^verbatim>\<open>req.session.userId\<close>: \<^verbatim>\<open>undefined\<close> and the number 0 are falsy.\<close>

definition logged_in :: "session \<Rightarrow> bool" where
  "logged_in c = (case sess_userId c of None \<Rightarrow> False | Some n \<Rightarrow> n \<noteq> 0)"

text \<open>
  JavaScript numbers.  Every number that the handlers compute is an integer held in a
  double, so a number is modelled by the integer it denotes, and \<open>to_double\<close> is the
  rounding that ends every arithmetic operation: an integer of more than 53 bits goes to
  the nearest one with 53 significant bits, a tie to the one whose last bit is 0, and
  from \<open>2 ^ 1024\<close> on the result is \<^verbatim>\<open>Infinity\<close>, for which the value \<open>2 ^ 1024\<close> stands
  (\<open>- (2 ^ 1024)\<close> for \<^verbatim>\<open>-Infinity\<close>).
\<close>

function bit_length :: "int \<Rightarrow> nat" where
  "bit_length n = (if n \<le> 0 then 0 else Suc (bit_length (n div 2)))"
  by auto
termination
  by (relation "measure nat") auto

text \<open>The rounding of a non-negative integer.\<close>

definition round_to_double :: "int \<Rightarrow> int" where
  "round_to_double a =
     (if a \<le> 2 ^ 53 then a
      else
        let e = bit_length a - 53;
            q = a div 2 ^ e;
            r = a mod 2 ^ e;
            m = (if 2 ^ e < 2 * r \<or> (2 * r = 2 ^ e \<and> odd q) then q + 1 else q);
            v = m * 2 ^ e
        in if 2 ^ 1024 \<le> v then 2 ^ 1024 else v)"

definition to_double :: "int \<Rightarrow> int" where
  "to_double n = (if n < 0 then - round_to_double (- n) else round_to_double n)"

text \<open>The operators \<^verbatim>\<open>-\<close> and \<^verbatim>\<open>*\<close> of line 140 and 141.\<close>

definition js_minus :: "int \<Rightarrow> int \<Rightarrow> int" where
  "js_minus a b = to_double (a - b)"

definition js_times :: "int \<Rightarrow> int \<Rightarrow> int" where
  "js_times a b = to_double (a * b)"

text \<open>
  \<^verbatim>\<open>parseInt(string)\<close> with no radix (ECMAScript): skip the leading white space, read a
  sign, switch to radix 16 after \<^verbatim>\<open>0x\<close> or \<^verbatim>\<open>0X\<close>, take the longest prefix of digits of
  the radix and return their value as a number, rounded as every number is; \<open>None\<close> is
  \<^verbatim>\<open>NaN\<close>.

  \<open>StrWhiteSpaceChar\<close> lists the white space and line terminator code points of the
  standard in UTF-8: U+0009 to U+000D, U+0020, U+00A0, U+1680, U+2000 to U+200A, U+2028,
  U+2029, U+202F, U+205F, U+3000 and U+FEFF.
\<close>

definition StrWhiteSpaceChar :: "string list" where
  "StrWhiteSpaceChar =
     [[CHR 0x09], [CHR 0x0A], [CHR 0x0B], [CHR 0x0C], [CHR 0x0D], [CHR 0x20],
      [CHR 0xC2, CHR 0xA0], [CHR 0xE1, CHR 0x9A, CHR 0x80],
      [CHR 0xE2, CHR 0x80, CHR 0x80], [CHR 0xE2, CHR 0x80, CHR 0x81],
      [CHR 0xE2, CHR 0x80, CHR 0x82], [CHR 0xE2, CHR 0x80, CHR 0x83],
      [CHR 0xE2, CHR 0x80, CHR 0x84], [CHR 0xE2, CHR 0x80, CHR 0x85],
      [CHR 0xE2, CHR 0x80, CHR 0x86], [CHR 0xE2, CHR 0x80, CHR 0x87],
      [CHR 0xE2, CHR 0x80, CHR 0x88], [CHR 0xE2, CHR 0x80, CHR 0x89],
      [CHR 0xE2, CHR 0x80, CHR 0x8A], [CHR 0xE2, CHR 0x80, CHR 0xA8],
      [CHR 0xE2, CHR 0x80, CHR 0xA9], [CHR 0xE2, CHR 0x80, CHR 0xAF],
      [CHR 0xE2, CHR 0x81, CHR 0x9F], [CHR 0xE3, CHR 0x80, CHR 0x80],
      [CHR 0xEF, CHR 0xBB, CHR 0xBF]]"

text \<open>The number of bytes of the white space code point at the head of a string, 0 if none.\<close>

definition white_space_length :: "string \<Rightarrow> nat" where
  "white_space_length s =
     (case find (\<lambda>w. take (length w) s = w) StrWhiteSpaceChar of
        None \<Rightarrow> 0
      | Some w \<Rightarrow> length w)"

fun TrimStart :: "string \<Rightarrow> string" where
  "TrimStart [] = []"
| "TrimStart (c # cs) =
     (if white_space_length (c # cs) = 0 then c # cs
      else TrimStart (drop (white_space_length (c # cs) - 1) cs))"

definition digit_value :: "char \<Rightarrow> nat option" where
  "digit_value c =
     (let n = (of_char c :: nat) in
      if 48 \<le> n \<and> n \<le> 57 then Some (n - 48)
      else if 97 \<le> n \<and> n \<le> 122 then Some (n - 87)
      else if 65 \<le> n \<and> n \<le> 90 then Some (n - 55)
      else None)"

fun radix_digits :: "nat \<Rightarrow> string \<Rightarrow> nat list" where
  "radix_digits R [] = []"
| "radix_digits R (c # cs) =
     (case digit_value c of
        None \<Rightarrow> []
      | Some d \<Rightarrow> if d < R then d # radix_digits R cs else [])"

definition digits_value :: "nat \<Rightarrow> nat list \<Rightarrow> int" where
  "digits_value R ds = foldl (\<lambda>a d. a * int R + int d) 0 ds"

definition parseInt_string :: "string \<Rightarrow> int option" where
  "parseInt_string inputString =
     (let S = TrimStart inputString;
          sign = (if take 1 S = ''-'' then - 1 else 1 :: int);
          S1 = (if take 1 S = ''+'' \<or> take 1 S = ''-'' then drop 1 S else S);
          hex = (take 2 S1 = ''0x'' \<or> take 2 S1 = ''0X'');
          R = (if hex then 16 else 10);
          S2 = (if hex then drop 2 S1 else S1);
          Z = radix_digits R S2
      in if Z = [] then None else Some (to_double (sign * digits_value R Z)))"

text \<open>A missing query parameter is \<^verbatim>\<open>undefined\<close>, which \<^verbatim>\<open>parseInt\<close> reads as the string "undefined".\<close>

definition parseInt :: "string option \<Rightarrow> int option" where
  "parseInt v = (case v of None \<Rightarrow> parseInt_string ''undefined'' | Some x \<Rightarrow> parseInt_string x)"

text \<open>\<^verbatim>\<open>parseInt(v) || 1\<close>: \<^verbatim>\<open>NaN\<close> and 0 are falsy.\<close>

definition page_param :: "string option \<Rightarrow> int" where
  "page_param v = (case parseInt v of None \<Rightarrow> 1 | Some n \<Rightarrow> if n = 0 then 1 else n)"

text \<open>\<^verbatim>\<open>Math.ceil(total / limit)\<close>, a division of numbers followed by rounding up.\<close>

definition total_pages :: "int \<Rightarrow> int \<Rightarrow> int" where
  "total_pages totalRows limit = \<lceil>real_of_int totalRows / real_of_int limit\<rceil>"

subsection \<open>Queries (the SQL texts of src/server.js)\<close>

text \<open>
  \<^verbatim>\<open>pool.query\<close> call number \<open>k\<close> of a handler: rejected when the environment says so,
  otherwise the outcome \<open>r\<close> of the statement.
\<close>

definition pool_query :: "env \<Rightarrow> nat \<Rightarrow> exn + 'a \<Rightarrow> exn + 'a" where
  "pool_query E k r = (if fail_at E = Some k then Inl (QueryRejected k) else r)"

text \<open>Lines 42 and 69: \<^verbatim>\<open>SELECT ... FROM users WHERE username = ? OR email = ?\<close>.\<close>

definition select_users_by_username_or_email ::
    "lib \<Rightarrow> database \<Rightarrow> string \<Rightarrow> string \<Rightarrow> user_row list" where
  "select_users_by_username_or_email L d username email =
     filter (\<lambda>r. collate_eq L (u_username r) username \<or> collate_eq L (u_email r) email) (users d)"

text \<open>
  Line 48: \<^verbatim>\<open>INSERT INTO users (username, email, password)\<close>.  The two \<^verbatim>\<open>UNIQUE\<close>
  columns reject a duplicate; the result carries \<^verbatim>\<open>insertId\<close>.
\<close>

definition insert_user ::
    "lib \<Rightarrow> database \<Rightarrow> string \<Rightarrow> string \<Rightarrow> string \<Rightarrow> nat \<Rightarrow> exn + (database \<times> nat)" where
  "insert_user L d username email hashedPassword t =
     (if select_users_by_username_or_email L d username email \<noteq> [] then Inl ConstraintViolation
      else
        let insertId = Suc (users_last_id d);
            row = \<lparr>u_id = insertId, u_username = username, u_email = email,
                   u_password = hashedPassword, u_created_at = t\<rparr>
        in Inr (d\<lparr>users := users d @ [row], users_last_id := insertId\<rparr>, insertId))"

text \<open>Line 132: \<^verbatim>\<open>SELECT username FROM users WHERE id = ?\<close>.\<close>

definition select_username_by_id :: "database \<Rightarrow> nat \<Rightarrow> string list" where
  "select_username_by_id d i = map u_username (filter (\<lambda>r. u_id r = i) (users d))"

text \<open>
  Lines 113-116: \<^verbatim>\<open>INSERT INTO messages (user_id, name, email, subject, message)\<close>.
  The foreign key rejects a \<open>user_id\<close> that is not the id of a user.
\<close>

definition insert_message ::
    "database \<Rightarrow> nat \<Rightarrow> string \<Rightarrow> string \<Rightarrow> string \<Rightarrow> string \<Rightarrow> nat \<Rightarrow> exn + database" where
  "insert_message d userId name email subject message t =
     (if select_username_by_id d userId = [] then Inl ConstraintViolation
      else
        let insertId = Suc (messages_last_id d);
            row = \<lparr>m_id = insertId, m_user_id = Some userId, m_name = name, m_email = email,
                   m_subject = subject, m_message = message, m_created_at = t\<rparr>
        in Inr (d\<lparr>messages := messages d @ [row], messages_last_id := insertId\<rparr>))"

text \<open>Lines 144 and 149: \<^verbatim>\<open>SELECT COUNT(*) as count\<close>.\<close>

definition count_users :: "database \<Rightarrow> int" where
  "count_users d = int (length (users d))"

definition count_messages :: "database \<Rightarrow> int" where
  "count_messages d = int (length (messages d))"

text \<open>
  \<^verbatim>\<open>LIMIT ? OFFSET ?\<close>: MySQL accepts only non-negative integer constants there, a
  negative offset is a syntax error of the statement.  An offset that MySQL refuses for
  its size (from \<open>2 ^ 64\<close> on) is a rejection by the environment (\<open>fail_at\<close>).  An offset
  above \<open>2 ^ 53\<close> reaches MySQL in the decimal digits that JavaScript prints for the
  number; the properties below that describe rows are stated for offsets up to \<open>2 ^ 53\<close>.
\<close>

definition limit_offset :: "int \<Rightarrow> int \<Rightarrow> 'a list \<Rightarrow> exn + 'a list" where
  "limit_offset limit off rows =
     (if limit < 0 \<or> off < 0 then Inl SyntaxError else Inr (take (nat limit) (drop (nat off) rows)))"

text \<open>Line 146: the columns \<^verbatim>\<open>id, username, email, created_at\<close>, newest first.\<close>

definition user_json :: "user_row \<Rightarrow> json" where
  "user_json r =
     JObj [(''id'', JNum (int (u_id r))), (''username'', JStr (u_username r)),
           (''email'', JStr (u_email r)), (''created_at'', JNum (int (u_created_at r)))]"

definition select_users_page :: "database \<Rightarrow> int \<Rightarrow> int \<Rightarrow> exn + json list" where
  "select_users_page d limit off =
     (case limit_offset limit off (rev (sort_key u_created_at (users d))) of
        Inl e \<Rightarrow> Inl e
      | Inr rows \<Rightarrow> Inr (map user_json rows))"

text \<open>
  Lines 151-157: \<^verbatim>\<open>m.*\<close> and the submitter's username by \<^verbatim>\<open>LEFT JOIN\<close>, \<^verbatim>\<open>NULL\<close>
  when no user has the id.
\<close>

definition joined_user_name :: "database \<Rightarrow> nat option \<Rightarrow> json" where
  "joined_user_name d i =
     (case i of
        None \<Rightarrow> JNull
      | Some n \<Rightarrow> (case select_username_by_id d n of [] \<Rightarrow> JNull | u # _ \<Rightarrow> JStr u))"

definition message_json :: "database \<Rightarrow> message_row \<Rightarrow> json" where
  "message_json d r =
     JObj [(''id'', JNum (int (m_id r))),
           (''user_id'', (case m_user_id r of None \<Rightarrow> JNull | Some n \<Rightarrow> JNum (int n))),
           (''name'', JStr (m_name r)), (''email'', JStr (m_email r)),
           (''subject'', JStr (m_subject r)), (''message'', JStr (m_message r)),
           (''created_at'', JNum (int (m_created_at r))),
           (''user_name'', joined_user_name d (m_user_id r))]"

definition select_messages_page :: "database \<Rightarrow> int \<Rightarrow> int \<Rightarrow> exn + json list" where
  "select_messages_page d limit off =
     (case limit_offset limit off (rev (sort_key m_created_at (messages d))) of
        Inl e \<Rightarrow> Inl e
      | Inr rows \<Rightarrow> Inr (map (message_json d) rows))"

subsection \<open>Requests\<close>

record register_body =
  reg_username :: "string option"
  reg_email :: "string option"
  reg_password :: "string option"
  reg_confirm_password :: "string option"

record login_body =
  login_username :: "string option"
  login_password :: "json option"

record contact_body =
  contact_name :: "string option"
  contact_email :: "string option"
  contact_subject :: "string option"
  contact_message :: "string option"

record admin_query =
  page_users :: "string option"
  page_msgs :: "string option"

definition fail_json :: "string \<Rightarrow> json" where
  "fail_json m = JObj [(''success'', JBool False), (''message'', JStr m)]"

definition ok_json :: "string \<Rightarrow> string \<Rightarrow> json" where
  "ok_json m username =
     JObj [(''success'', JBool True), (''message'', JStr m), (''username'', JStr username)]"

definition userId_of :: "session \<Rightarrow> nat" where
  "userId_of c = (case sess_userId c of None \<Rightarrow> 0 | Some n \<Rightarrow> n)"

subsection \<open>POST /api/register (lines 30-58)\<close>

definition register_try ::
    "lib \<Rightarrow> env \<Rightarrow> string \<Rightarrow> string \<Rightarrow> string \<Rightarrow> state \<Rightarrow> exn + (response \<times> state)" where
  "register_try L E username email password s =
     (case pool_query E 0 (Inr (select_users_by_username_or_email L (db s) username email)) of
        Inl e \<Rightarrow> Inl e
      | Inr existing \<Rightarrow>
          if length existing > 0 then Inr (res_json (fail_json msg_already_registered), s)
          else
            let hashedPassword = bcrypt_hash L password 10 (salt E) in
            (case pool_query E 1 (insert_user L (db s) username email hashedPassword (now E)) of
               Inl e \<Rightarrow> Inl e
             | Inr (d', insertId) \<Rightarrow>
                 Inr (res_json (ok_json msg_register_ok username),
                      \<lparr>db = d',
                       sess = (sess s)\<lparr>sess_userId := Some insertId,
                                       sess_username := Some username\<rparr>\<rparr>)))"

definition api_register :: "lib \<Rightarrow> env \<Rightarrow> register_body \<Rightarrow> state \<Rightarrow> response \<times> state" where
  "api_register L E b s =
     (if \<not> truthy (reg_username b) \<or> \<not> truthy (reg_email b) \<or> \<not> truthy (reg_password b)
         \<or> \<not> truthy (reg_confirm_password b)
      then (res_json (fail_json msg_fill_all_fields), s)
      else if reg_password b \<noteq> reg_confirm_password b
      then (res_json (fail_json msg_password_mismatch), s)
      else
        (case register_try L E (str_of (reg_username b)) (str_of (reg_email b))
                (str_of (reg_password b)) s of
           Inl err \<Rightarrow> (res_json (fail_json msg_register_failed), s)
         | Inr r \<Rightarrow> r))"

subsection \<open>POST /api/login (lines 61-83)\<close>

definition login_try ::
    "lib \<Rightarrow> env \<Rightarrow> string \<Rightarrow> json \<Rightarrow> state \<Rightarrow> exn + (response \<times> state)" where
  "login_try L E username password s =
     (case pool_query E 0 (Inr (select_users_by_username_or_email L (db s) username username)) of
        Inl e \<Rightarrow> Inl e
      | Inr rows \<Rightarrow>
          (case rows of
             [] \<Rightarrow> Inr (res_json (fail_json msg_bad_credentials), s)
           | user # _ \<Rightarrow>
               (case compare L password (u_password user) of
                  Inl e \<Rightarrow> Inl e
                | Inr matches \<Rightarrow>
                    if matches
                    then Inr (res_json (ok_json msg_login_ok (u_username user)),
                              s\<lparr>sess := (sess s)\<lparr>sess_userId := Some (u_id user),
                                                    sess_username := Some (u_username user)\<rparr>\<rparr>)
                    else Inr (res_json (fail_json msg_bad_credentials), s))))"

definition api_login :: "lib \<Rightarrow> env \<Rightarrow> login_body \<Rightarrow> state \<Rightarrow> response \<times> state" where
  "api_login L E b s =
     (if \<not> truthy (login_username b) \<or> \<not> truthy_json (login_password b)
      then (res_json (fail_json msg_fill_all_fields), s)
      else
        (case login_try L E (str_of (login_username b)) (value_of (login_password b)) s of
           Inl err \<Rightarrow> (res_json (fail_json msg_system_error), s)
         | Inr r \<Rightarrow> r))"

subsection \<open>GET /api/check_auth and GET /api/logout (lines 86-98)\<close>

text \<open>A member that is \<^verbatim>\<open>undefined\<close> is left out of the serialised object.\<close>

definition api_check_auth :: "state \<Rightarrow> response \<times> state" where
  "api_check_auth s =
     (if logged_in (sess s)
      then (res_json (JObj ((''isLoggedIn'', JBool True) #
                            (case sess_username (sess s) of
                               None \<Rightarrow> []
                             | Some u \<Rightarrow> [(''username'', JStr u)]))), s)
      else (res_json (JObj [(''isLoggedIn'', JBool False)]), s))"

text \<open>\<^verbatim>\<open>req.session.destroy()\<close>: the next request of the client starts from an empty session.\<close>

definition api_logout :: "state \<Rightarrow> response \<times> state" where
  "api_logout s =
     (res_json (JObj [(''success'', JBool True)]),
      s\<lparr>sess := \<lparr>sess_userId = None, sess_username = None\<rparr>\<rparr>)"

subsection \<open>POST /api/contact (lines 101-122)\<close>

definition api_contact :: "env \<Rightarrow> contact_body \<Rightarrow> state \<Rightarrow> response \<times> state" where
  "api_contact E b s =
     (if \<not> logged_in (sess s)
      then (res_status_json 401 (fail_json msg_login_required_member), s)
      else if \<not> truthy (contact_name b) \<or> \<not> truthy (contact_email b)
              \<or> \<not> truthy (contact_subject b) \<or> \<not> truthy (contact_message b)
      then (res_json (fail_json msg_fill_all_fields), s)
      else
        (case pool_query E 0
                (insert_message (db s) (userId_of (sess s)) (str_of (contact_name b))
                   (str_of (contact_email b)) (str_of (contact_subject b))
                   (str_of (contact_message b)) (now E)) of
           Inl err \<Rightarrow> (res_json (fail_json msg_contact_failed), s)
         | Inr d' \<Rightarrow>
             (res_json (JObj [(''success'', JBool True), (''message'', JStr msg_contact_ok)]),
              s\<lparr>db := d'\<rparr>)))"

subsection \<open>GET /api/admin/data (lines 125-181)\<close>

definition pagination :: "json list \<Rightarrow> int \<Rightarrow> int \<Rightarrow> int \<Rightarrow> json" where
  "pagination rows totalRows page limit =
     JObj [(''data'', JArr rows), (''total'', JNum totalRows), (''current_page'', JNum page),
           (''per_page'', JNum limit), (''total_pages'', JNum (total_pages totalRows limit))]"

definition admin_try :: "env \<Rightarrow> admin_query \<Rightarrow> state \<Rightarrow> exn + response" where
  "admin_try E q s =
     (case pool_query E 0 (Inr (select_username_by_id (db s) (userId_of (sess s)))) of
        Inl e \<Rightarrow> Inl e
      | Inr names \<Rightarrow>
          if names = [] \<or> hd names \<noteq> ''admin''
          then Inr (res_status_json 403 (fail_json msg_forbidden))
          else
            let pageUsers = page_param (page_users q);
                pageMsgs = page_param (page_msgs q);
                limit = 10;
                offsetUsers = js_times (js_minus pageUsers 1) limit;
                offsetMsgs = js_times (js_minus pageMsgs 1) limit
            in
            (case pool_query E 1 (Inr (count_users (db s))) of
               Inl e \<Rightarrow> Inl e
             | Inr totalUsers \<Rightarrow>
            (case pool_query E 2 (select_users_page (db s) limit offsetUsers) of
               Inl e \<Rightarrow> Inl e
             | Inr usersData \<Rightarrow>
            (case pool_query E 3 (Inr (count_messages (db s))) of
               Inl e \<Rightarrow> Inl e
             | Inr totalMsgs \<Rightarrow>
            (case pool_query E 4 (select_messages_page (db s) limit offsetMsgs) of
               Inl e \<Rightarrow> Inl e
             | Inr msgsData \<Rightarrow>
                 Inr (res_json
                   (JObj [(''success'', JBool True),
                          (''users'', pagination usersData totalUsers pageUsers limit),
                          (''messages'', pagination msgsData totalMsgs pageMsgs limit)])))))))"

definition api_admin_data :: "env \<Rightarrow> admin_query \<Rightarrow> state \<Rightarrow> response \<times> state" where
  "api_admin_data E q s =
     (if \<not> logged_in (sess s)
      then (res_status_json 401 (fail_json msg_login_required), s)
      else
        (case admin_try E q s of
           Inl err \<Rightarrow> (res_status_json 500 (fail_json msg_system_error), s)
         | Inr r \<Rightarrow> (r, s)))"

subsection \<open>The middleware in front of the handlers (lines 15-25)\<close>










subsection \<open>Observations on responses\<close>


text \<open>A response fails when its \<^verbatim>\<open>success\<close> member is \<^verbatim>\<open>false\<close>.\<close>

definition is_failure :: "response \<Rightarrow> bool" where
  "is_failure r = (field ''success'' (body r) = Some (JBool False))"

definition has_message :: "response \<Rightarrow> bool" where
  "has_message r = (case field ''message'' (body r) of Some (JStr m) \<Rightarrow> m \<noteq> [] | _ \<Rightarrow> False)"

text \<open>The fields of a registration pass the checks of lines 33 and 37.\<close>

definition register_fields_ok :: "register_body \<Rightarrow> bool" where
  "register_fields_ok b =
     (truthy (reg_username b) \<and> truthy (reg_email b) \<and> truthy (reg_password b)
      \<and> truthy (reg_confirm_password b) \<and> reg_password b = reg_confirm_password b)"

text \<open>The fields of a contact submission pass the check of line 108.\<close>

definition contact_fields_ok :: "contact_body \<Rightarrow> bool" where
  "contact_fields_ok b =
     (truthy (contact_name b) \<and> truthy (contact_email b) \<and> truthy (contact_subject b)
      \<and> truthy (contact_message b))"

text \<open>The login that repeats the username and the password of a registration.\<close>

definition login_of :: "register_body \<Rightarrow> login_body" where
  "login_of b =
     \<lparr>login_username = reg_username b, login_password = map_option JStr (reg_password b)\<rparr>"

text \<open>The body of a successful admin answer for the pages \<open>pu\<close> and \<open>pm\<close> (lines 159-175).\<close>

definition admin_ok_json :: "database \<Rightarrow> int \<Rightarrow> int \<Rightarrow> json" where
  "admin_ok_json d pu pm =
     JObj [(''success'', JBool True),
           (''users'',
            pagination
              (map user_json
                 (take 10 (drop (nat (js_times (js_minus pu 1) 10))
                    (rev (sort_key u_created_at (users d))))))
              (count_users d) pu 10),
           (''messages'',
            pagination
              (map (message_json d)
                 (take 10 (drop (nat (js_times (js_minus pm 1) 10))
                    (rev (sort_key m_created_at (messages d))))))
              (count_messages d) pm 10)]"

text \<open>The usernames that the admin check of line 132 reads for the session of a state.\<close>

definition session_row_names :: "state \<Rightarrow> string list" where
  "session_row_names s = select_username_by_id (db s) (userId_of (sess s))"


subsection \<open>Sample data\<close>

text \<open>
  Concrete libraries, environments, states and requests, on which the handlers are
  evaluated below.  The sample library compares strings exactly, hashes a password by
  putting the salt in front of it, and accepts a password that is the hash without its
  first four characters (the salt of the samples has four).
\<close>

definition sample_lib :: lib where
  "sample_lib =
     \<lparr>collate_eq = (=), bcrypt_hash = (\<lambda>p c s. s @ p), bcrypt_compare = (\<lambda>p h. drop 4 h = p)\<rparr>"

definition env_ok :: env where
  "env_ok = \<lparr>fail_at = None, now = 1000, salt = ''salt''\<rparr>"

definition env_rejecting :: "nat \<Rightarrow> env" where
  "env_rejecting k = \<lparr>fail_at = Some k, now = 1000, salt = ''salt''\<rparr>"

definition no_session :: session where
  "no_session = \<lparr>sess_userId = None, sess_username = None\<rparr>"

definition session_of :: "nat \<Rightarrow> string \<Rightarrow> session" where
  "session_of i n = \<lparr>sess_userId = Some i, sess_username = Some n\<rparr>"

definition fresh_state :: state where
  "fresh_state =
     \<lparr>db = \<lparr>users = [], messages = [], users_last_id = 0, messages_last_id = 0\<rparr>,
      sess = no_session\<rparr>"

definition sample_user :: "nat \<Rightarrow> string \<Rightarrow> user_row" where
  "sample_user i n =
     \<lparr>u_id = i, u_username = n, u_email = n @ ''@example.org'', u_password = ''salt'' @ n,
      u_created_at = i\<rparr>"

definition two_users_db :: database where
  "two_users_db =
     \<lparr>users = [sample_user 1 ''admin'', sample_user 2 ''bob''], messages = [],
      users_last_id = 2, messages_last_id = 0\<rparr>"

text \<open>25 users, the first of them the administrator.\<close>

definition many_users_db :: database where
  "many_users_db =
     \<lparr>users = sample_user 1 ''admin'' # map (\<lambda>i. sample_user i (replicate i CHR ''u'')) [2..<26],
      messages = [], users_last_id = 25, messages_last_id = 0\<rparr>"

definition state_of :: "database \<Rightarrow> session \<Rightarrow> state" where
  "state_of d c = \<lparr>db = d, sess = c\<rparr>"

definition sample_registration :: register_body where
  "sample_registration =
     \<lparr>reg_username = Some ''carol'', reg_email = Some ''carol@example.org'',
      reg_password = Some ''secret'', reg_confirm_password = Some ''secret''\<rparr>"

definition sample_contact :: contact_body where
  "sample_contact =
     \<lparr>contact_name = Some ''Bob'', contact_email = Some ''bob@example.org'',
      contact_subject = Some ''Hello'', contact_message = Some ''A question''\<rparr>"

definition wrong_login :: login_body where
  "wrong_login = \<lparr>login_username = Some ''bob'', login_password = Some (JStr ''guess'')\<rparr>"

definition unknown_login :: login_body where
  "unknown_login =
     \<lparr>login_username = Some ''nobody'', login_password = Some (JStr ''guess'')\<rparr>"

text \<open>The JSON bodies \<^verbatim>\<open>{"username": u, "password": 123}\<close>.\<close>

definition numeric_login :: "string \<Rightarrow> login_body" where
  "numeric_login u = \<lparr>login_username = Some u, login_password = Some (JNum 123)\<rparr>"

definition first_pages :: admin_query where
  "first_pages = \<lparr>page_users = None, page_msgs = None\<rparr>"

section \<open>Properties\<close>

subsection \<open>Auxiliary facts\<close>

text \<open>Rounding keeps the sign and leaves the integers up to \<open>2 ^ 53\<close> as they are.\<close>

declare bit_length.simps [simp del]

lemma bit_length_le: "0 < a \<Longrightarrow> 2 ^ (bit_length a - 1) \<le> a"
proof (induction a rule: bit_length.induct)
  case (1 n)
  show ?case
  proof (cases "n div 2 \<le> 0")
    case True
    then have "bit_length (n div 2) = 0" by (simp add: bit_length.simps [of "n div 2"])
    then have "bit_length n = 1" using 1(2) by (simp add: bit_length.simps [of n])
    then show ?thesis using 1(2) by simp
  next
    case False
    then have "2 ^ (bit_length (n div 2) - 1) \<le> n div 2" using 1 by simp
    moreover have "bit_length (n div 2) = Suc (bit_length (n div 2) - 1)"
      using False by (simp add: bit_length.simps [of "n div 2"])
    moreover have "bit_length n = Suc (bit_length (n div 2))"
      using 1(2) by (simp add: bit_length.simps [of n])
    ultimately have "2 ^ (bit_length n - 1) = (2::int) * 2 ^ (bit_length (n div 2) - 1)"
      by (metis diff_Suc_1 power_Suc)
    then show ?thesis using \<open>2 ^ (bit_length (n div 2) - 1) \<le> n div 2\<close> by linarith
  qed
qed

lemma round_to_double_pos: "0 < a \<Longrightarrow> 0 < round_to_double a"
proof (cases "a \<le> 2 ^ 53")
  case True
  assume "0 < a"
  then show ?thesis using True by (simp add: round_to_double_def)
next
  case False
  assume a: "0 < a"
  define e where "e = bit_length a - 53"
  have "(2::int) ^ e \<le> 2 ^ (bit_length a - 1)"
    unfolding e_def by (rule power_increasing) simp_all
  then have "2 ^ e \<le> a" using bit_length_le [OF a] by linarith
  then have "0 < a div 2 ^ e"
    by (simp add: pos_imp_zdiv_pos_iff)
  then have q: "1 \<le> a div 2 ^ e" by linarith
  have p: "(0::int) < 2 ^ e" by simp
  have "0 < (a div 2 ^ e) * 2 ^ e" using q p by simp
  moreover have "0 < (a div 2 ^ e + 1) * 2 ^ e" using q p by simp
  ultimately show ?thesis using False
    by (simp add: round_to_double_def Let_def e_def [symmetric])
qed

lemma to_double_neg_iff: "(to_double n < 0) = (n < 0)"
proof (cases "n < 0")
  case True
  then show ?thesis using round_to_double_pos [of "- n"] by (simp add: to_double_def)
next
  case False
  then have "n = 0 \<or> 0 < n" by linarith
  then show ?thesis
  proof
    assume "n = 0" then show ?thesis by (simp add: to_double_def round_to_double_def)
  next
    assume "0 < n" then show ?thesis using round_to_double_pos [of n] by (simp add: to_double_def)
  qed
qed

lemma to_double_exact: "\<bar>n\<bar> \<le> 2 ^ 53 \<Longrightarrow> to_double n = n"
  by (auto simp add: to_double_def round_to_double_def)

lemma js_offset_neg_iff: "(js_times (js_minus p 1) 10 < 0) = (p < 1)"
proof -
  have "(js_times (js_minus p 1) 10 < 0) = (to_double (p - 1) * 10 < 0)"
    by (simp add: js_times_def js_minus_def to_double_neg_iff)
  also have "\<dots> = (to_double (p - 1) < 0)" by simp
  also have "\<dots> = (p < 1)" by (simp add: to_double_neg_iff)
  finally show ?thesis .
qed

lemma js_offset_exact:
  "1 \<le> p \<Longrightarrow> (p - 1) * 10 \<le> 2 ^ 53 \<Longrightarrow> js_times (js_minus p 1) 10 = (p - 1) * 10"
proof -
  assume a: "1 \<le> p" "(p - 1) * 10 \<le> 2 ^ 53"
  then have "\<bar>p - 1\<bar> \<le> 2 ^ 53" by simp
  then have "js_minus p 1 = p - 1" by (simp add: js_minus_def to_double_exact)
  moreover have "\<bar>(p - 1) * 10\<bar> \<le> 2 ^ 53" using a by simp
  ultimately show ?thesis by (simp add: js_times_def to_double_exact)
qed


lemma parseInt_undefined: "parseInt None = None"
  by code_simp

lemma page_param_falsy: "parseInt v = Some 0 \<or> parseInt v = None \<Longrightarrow> page_param v = 1"
  by (auto simp: page_param_def)

lemma page_param_missing: "page_param None = 1"
  by (simp add: page_param_falsy parseInt_undefined)

lemma ceiling_tenth: "- ((- t) div 10) = (t + 9) div (10::int)"
proof -
  define q where "q = t div 10"
  define r where "r = t mod 10"
  have t: "t = 10 * q + r" and r: "0 \<le> r" "r < 10"
    by (simp_all add: q_def r_def)
  show ?thesis
  proof (cases "r = 0")
    case True
    then show ?thesis using t by simp
  next
    case False
    have "- t = 10 * (- q - 1) + (10 - r)" using t by simp
    then have "(- t) div 10 = - q - 1 + (10 - r) div 10"
      by (metis add.commute div_mult_self2 zero_neq_numeral)
    moreover have "(10 - r) div 10 = 0" using r False by simp
    moreover have "t + 9 = 10 * (q + 1) + (r - 1)" using t by simp
    then have "(t + 9) div 10 = q + 1 + (r - 1) div 10"
      by (metis add.commute div_mult_self2 zero_neq_numeral)
    moreover have "(r - 1) div 10 = 0" using r False by simp
    ultimately show ?thesis by simp
  qed
qed

lemma total_pages_div: "total_pages t 10 = (t + 9) div 10"
proof -
  have "\<lceil>real_of_int t / real_of_int 10\<rceil> = - \<lfloor>real_of_int (- t) / real_of_int 10\<rfloor>"
    by (simp add: ceiling_def)
  also have "\<dots> = - ((- t) div 10)"
    by (simp only: floor_divide_of_int_eq)
  also have "\<dots> = (t + 9) div 10"
    by (rule ceiling_tenth)
  finally show ?thesis
    by (simp add: total_pages_def)
qed

lemma api_admin_data_eq:
  "api_admin_data E q s =
     (if \<not> logged_in (sess s) then (res_status_json 401 (fail_json msg_login_required), s)
      else if fail_at E \<noteq> Some 0
              \<and> (session_row_names s = [] \<or> hd (session_row_names s) \<noteq> ''admin'')
      then (res_status_json 403 (fail_json msg_forbidden), s)
      else if fail_at E \<noteq> Some 0 \<and> fail_at E \<noteq> Some 1 \<and> fail_at E \<noteq> Some 2
              \<and> fail_at E \<noteq> Some 3 \<and> fail_at E \<noteq> Some 4
              \<and> 1 \<le> page_param (page_users q) \<and> 1 \<le> page_param (page_msgs q)
      then (res_json (admin_ok_json (db s) (page_param (page_users q)) (page_param (page_msgs q))), s)
      else (res_status_json 500 (fail_json msg_system_error), s))"
  unfolding api_admin_data_def admin_try_def Let_def admin_ok_json_def session_row_names_def
  by (simp add: pool_query_def select_users_page_def select_messages_page_def limit_offset_def
      js_offset_neg_iff not_less)

lemma api_register_eq:
  "api_register L E b s =
     (if \<not> truthy (reg_username b) \<or> \<not> truthy (reg_email b) \<or> \<not> truthy (reg_password b)
         \<or> \<not> truthy (reg_confirm_password b)
      then (res_json (fail_json msg_fill_all_fields), s)
      else if reg_password b \<noteq> reg_confirm_password b
      then (res_json (fail_json msg_password_mismatch), s)
      else if fail_at E = Some 0 then (res_json (fail_json msg_register_failed), s)
      else if select_users_by_username_or_email L (db s) (str_of (reg_username b))
                (str_of (reg_email b)) \<noteq> []
      then (res_json (fail_json msg_already_registered), s)
      else if fail_at E = Some 1 then (res_json (fail_json msg_register_failed), s)
      else (res_json (ok_json msg_register_ok (str_of (reg_username b))),
            \<lparr>db = (db s)\<lparr>users := users (db s) @
                        [\<lparr>u_id = Suc (users_last_id (db s)),
                          u_username = str_of (reg_username b),
                          u_email = str_of (reg_email b),
                          u_password = bcrypt_hash L (str_of (reg_password b)) 10 (salt E),
                          u_created_at = now E\<rparr>],
                      users_last_id := Suc (users_last_id (db s))\<rparr>,
             sess = (sess s)\<lparr>sess_userId := Some (Suc (users_last_id (db s))),
                             sess_username := Some (str_of (reg_username b))\<rparr>\<rparr>))"
  unfolding api_register_def register_try_def Let_def
  by (simp add: pool_query_def insert_user_def)

lemma api_login_eq:
  "api_login L E b s =
     (if \<not> truthy (login_username b) \<or> \<not> truthy_json (login_password b)
      then (res_json (fail_json msg_fill_all_fields), s)
      else if fail_at E = Some 0 then (res_json (fail_json msg_system_error), s)
      else
        (case select_users_by_username_or_email L (db s) (str_of (login_username b))
                (str_of (login_username b)) of
           [] \<Rightarrow> (res_json (fail_json msg_bad_credentials), s)
         | user # rest \<Rightarrow>
             (case value_of (login_password b) of
                JStr p \<Rightarrow>
                  if bcrypt_compare L p (u_password user)
                  then (res_json (ok_json msg_login_ok (u_username user)),
                        s\<lparr>sess := (sess s)\<lparr>sess_userId := Some (u_id user),
                                              sess_username := Some (u_username user)\<rparr>\<rparr>)
                  else (res_json (fail_json msg_bad_credentials), s)
              | _ \<Rightarrow> (res_json (fail_json msg_system_error), s))))"
  unfolding api_login_def login_try_def
  by (simp add: pool_query_def compare_def split: list.splits json.splits)

lemma api_contact_eq:
  "api_contact E b s =
     (if \<not> logged_in (sess s)
      then (res_status_json 401 (fail_json msg_login_required_member), s)
      else if \<not> truthy (contact_name b) \<or> \<not> truthy (contact_email b)
              \<or> \<not> truthy (contact_subject b) \<or> \<not> truthy (contact_message b)
      then (res_json (fail_json msg_fill_all_fields), s)
      else if fail_at E = Some 0 \<or> session_row_names s = []
      then (res_json (fail_json msg_contact_failed), s)
      else (res_json (JObj [(''success'', JBool True), (''message'', JStr msg_contact_ok)]),
            s\<lparr>db := (db s)\<lparr>messages := messages (db s) @
                        [\<lparr>m_id = Suc (messages_last_id (db s)),
                          m_user_id = Some (userId_of (sess s)),
                          m_name = str_of (contact_name b),
                          m_email = str_of (contact_email b),
                          m_subject = str_of (contact_subject b),
                          m_message = str_of (contact_message b),
                          m_created_at = now E\<rparr>],
                      messages_last_id := Suc (messages_last_id (db s))\<rparr>\<rparr>))"
  unfolding api_contact_def Let_def session_row_names_def
  by (simp add: pool_query_def insert_message_def)








lemma sample_logged_in: "logged_in (sess (state_of d (session_of i n))) = (i \<noteq> 0)"
  by (simp add: state_of_def session_of_def logged_in_def)

lemma sample_row_names:
  "session_row_names (state_of two_users_db (session_of i n))
     = (if i = 1 then [''admin''] else if i = 2 then [''bob''] else [])"
  by (simp add: session_row_names_def state_of_def session_of_def userId_of_def
      select_username_by_id_def two_users_db_def sample_user_def)

lemma field_users_admin_ok: "field ''users'' (body (res_json (admin_ok_json d pu pm))) \<noteq> None"
  by (simp add: res_json_def admin_ok_json_def field_def)

lemma sample_lookup_bob:
  "select_users_by_username_or_email sample_lib two_users_db ''bob'' ''bob''
     = [sample_user 2 ''bob'']"
  by (simp add: select_users_by_username_or_email_def sample_lib_def two_users_db_def
      sample_user_def)

lemma sample_lookup_nobody:
  "select_users_by_username_or_email sample_lib two_users_db ''nobody'' ''nobody'' = []"
  by (simp add: select_users_by_username_or_email_def sample_lib_def two_users_db_def
      sample_user_def)

lemma sample_compare: "bcrypt_compare sample_lib p h = (drop 4 h = p)"
  by (simp add: sample_lib_def)

lemma system_error_is_not_bad_credentials:
  "res_json (fail_json msg_system_error) \<noteq> res_json (fail_json msg_bad_credentials)"
  by (simp add: res_json_def fail_json_def msg_system_error_def msg_bad_credentials_def)

text \<open>
  With a password that is a string, a found account whose hash comparison fails and an
  identifier that matches no account get the same response in every environment.
\<close>

lemma login_string_password_same_answer:
  assumes "truthy (login_username b1)" and "login_password b1 = Some (JStr p1)" and "p1 \<noteq> []"
    and "truthy (login_username b2)" and "login_password b2 = Some (JStr p2)" and "p2 \<noteq> []"
    and "select_users_by_username_or_email L (db s1) (str_of (login_username b1))
           (str_of (login_username b1)) = user # rest"
    and "\<not> bcrypt_compare L p1 (u_password user)"
    and "select_users_by_username_or_email L (db s2) (str_of (login_username b2))
           (str_of (login_username b2)) = []"
  shows "fst (api_login L E b1 s1) = fst (api_login L E b2 s2)
       \<and> is_failure (fst (api_login L E b1 s1))
       \<and> status (fst (api_login L E b1 s1)) = 200
       \<and> (fail_at E \<noteq> Some 0 \<longrightarrow>
            fst (api_login L E b1 s1) = res_json (fail_json msg_bad_credentials))
       \<and> snd (api_login L E b1 s1) = s1 \<and> snd (api_login L E b2 s2) = s2"
  using assms
  by (simp add: api_login_eq truthy_json_def value_of_def is_failure_def res_json_def
      fail_json_def field_def)

lemma login_string_password_sample:
  "fst (api_login sample_lib env_ok wrong_login (state_of two_users_db no_session))
     = fst (api_login sample_lib env_ok unknown_login (state_of two_users_db no_session))
   \<and> fst (api_login sample_lib env_ok wrong_login (state_of two_users_db no_session))
     = res_json (fail_json msg_bad_credentials)"
  by (simp add: api_login_eq wrong_login_def unknown_login_def truthy_def truthy_json_def
      value_of_def str_of_def state_of_def env_ok_def sample_lookup_bob sample_lookup_nobody
      sample_compare sample_user_def)


lemma failure_fail_json:
  "is_failure \<lparr>status = c, body = fail_json m\<rparr>"
  "has_message \<lparr>status = c, body = fail_json m\<rparr> = (m \<noteq> [])"
  by (simp_all add: is_failure_def has_message_def fail_json_def field_def)








lemma sample_registration_ok: "register_fields_ok sample_registration"
  by (simp add: register_fields_ok_def sample_registration_def truthy_def)

lemma sample_registration_strings:
  "str_of (reg_username sample_registration) = ''carol''"
  "str_of (reg_email sample_registration) = ''carol@example.org''"
  "str_of (reg_password sample_registration) = ''secret''"
  by (simp_all add: sample_registration_def str_of_def)

lemma sample_lookup_carol:
  "select_users_by_username_or_email sample_lib two_users_db ''carol'' ''carol@example.org'' = []"
  "select_users_by_username_or_email sample_lib (db fresh_state) u e = []"
  by (simp_all add: select_users_by_username_or_email_def sample_lib_def two_users_db_def
      sample_user_def fresh_state_def)

lemma sample_lookup_admin:
  "select_users_by_username_or_email sample_lib two_users_db ''admin'' ''x@example.org'' \<noteq> []"
  by (simp add: select_users_by_username_or_email_def sample_lib_def two_users_db_def
      sample_user_def)

lemma length_limit_offset:
  "length (take 10 (drop n xs)) = min 10 (length xs - n)"
  by simp

lemma many_users_length: "length (users many_users_db) = 25"
  by (simp add: many_users_db_def)

lemma many_users_row_names:
  "i = 1 \<Longrightarrow> session_row_names (state_of many_users_db (session_of i n)) = [''admin'']"
  by (simp add: session_row_names_def state_of_def session_of_def userId_of_def
      select_username_by_id_def many_users_db_def sample_user_def filter_map o_def
      filter_empty_conv)

lemma parseInt_three: "parseInt (Some ''3'') = Some 3"
  by code_simp

lemma parseInt_minus_one: "parseInt (Some ''-1'') = Some (- 1)"
  by code_simp

lemma parseInt_rounded: "parseInt (Some ''9007199254740993'') = Some 9007199254740992"
  by code_simp

lemma parseInt_no_break_space: "parseInt (Some [CHR 0xC2, CHR 0xA0, CHR ''3'']) = Some 3"
  by code_simp

lemma admin_system_error_no_blocks:
  "field ''users'' (body (res_status_json 500 (fail_json m))) = None"
  "field ''messages'' (body (res_status_json 500 (fail_json m))) = None"
  by (simp_all add: res_status_json_def fail_json_def field_def)








lemma sample_contact_ok: "contact_fields_ok sample_contact"
  by (simp add: contact_fields_ok_def sample_contact_def truthy_def)

lemma sample_not_logged_in: "\<not> logged_in (sess (state_of d no_session))"
  by (simp add: state_of_def no_session_def logged_in_def)

lemma api_logout_eq:
  "fst (api_logout t) = res_json (JObj [(''success'', JBool True)])"
  "\<not> logged_in (sess (snd (api_logout t)))"
  "db (snd (api_logout t)) = db t"
  by (simp_all add: api_logout_def logged_in_def)

lemma api_check_auth_state: "snd (api_check_auth t) = t"
  by (simp add: api_check_auth_def)

lemma api_check_auth_logged_out:
  "\<not> logged_in (sess t) \<Longrightarrow>
     fst (api_check_auth t) = res_json (JObj [(''isLoggedIn'', JBool False)])"
  by (simp add: api_check_auth_def)

lemma api_check_auth_logged_in:
  "logged_in (sess t) \<Longrightarrow> sess_username (sess t) = Some u \<Longrightarrow>
     fst (api_check_auth t) = res_json (JObj [(''isLoggedIn'', JBool True), (''username'', JStr u)])"
  by (simp add: api_check_auth_def)

lemma register_then_login:
  assumes "select_users_by_username_or_email L (db s) (str_of (reg_username b))
             (str_of (reg_email b)) = []"
    and "select_users_by_username_or_email L (db s) (str_of (reg_username b))
             (str_of (reg_username b)) = []"
    and "register_fields_ok b"
    and "fail_at E1 = None" and "fail_at E2 = None"
    and "collate_eq L (str_of (reg_username b)) (str_of (reg_username b))"
    and "bcrypt_compare L (str_of (reg_password b))
           (bcrypt_hash L (str_of (reg_password b)) 10 (salt E1))"
  shows "fst (api_register L E1 b s) = res_json (ok_json msg_register_ok (str_of (reg_username b)))"
    and "fst (api_login L E2 (login_of b) (snd (api_register L E1 b s)))
           = res_json (ok_json msg_login_ok (str_of (reg_username b)))"
    and "logged_in (sess (snd (api_login L E2 (login_of b) (snd (api_register L E1 b s)))))"
    and "sess_username (sess (snd (api_login L E2 (login_of b) (snd (api_register L E1 b s)))))
           = Some (str_of (reg_username b))"
proof -
  let ?u = "str_of (reg_username b)"
  let ?row = "\<lparr>u_id = Suc (users_last_id (db s)), u_username = ?u,
               u_email = str_of (reg_email b),
               u_password = bcrypt_hash L (str_of (reg_password b)) 10 (salt E1),
               u_created_at = now E1\<rparr>"
  note none = assms(1)
  have reg: "api_register L E1 b s =
      (res_json (ok_json msg_register_ok ?u),
       \<lparr>db = (db s)\<lparr>users := users (db s) @ [?row],
                     users_last_id := Suc (users_last_id (db s))\<rparr>,
        sess = (sess s)\<lparr>sess_userId := Some (Suc (users_last_id (db s))),
                        sess_username := Some ?u\<rparr>\<rparr>)"
    using assms(3,4) none by (simp add: api_register_eq register_fields_ok_def)
  show "fst (api_register L E1 b s) = res_json (ok_json msg_register_ok ?u)"
    by (simp add: reg)
  have found: "select_users_by_username_or_email L (db (snd (api_register L E1 b s))) ?u ?u
      = [?row]"
    using assms(2,6) by (simp add: reg select_users_by_username_or_email_def)
  have fields: "truthy (login_username (login_of b))"
      "truthy_json (login_password (login_of b))"
      "str_of (login_username (login_of b)) = ?u"
      "value_of (login_password (login_of b)) = JStr (str_of (reg_password b))"
    using assms(3)
    by (auto simp: login_of_def register_fields_ok_def truthy_def truthy_json_def value_of_def
        str_of_def split: option.splits)
  have login: "api_login L E2 (login_of b) (snd (api_register L E1 b s)) =
      (res_json (ok_json msg_login_ok ?u),
       (snd (api_register L E1 b s))
         \<lparr>sess := (sess (snd (api_register L E1 b s)))
                    \<lparr>sess_userId := Some (Suc (users_last_id (db s))),
                     sess_username := Some ?u\<rparr>\<rparr>)"
    using assms(5,7) fields found by (simp add: api_login_eq)
  show "fst (api_login L E2 (login_of b) (snd (api_register L E1 b s)))
           = res_json (ok_json msg_login_ok ?u)"
    by (simp add: login)
  show "logged_in (sess (snd (api_login L E2 (login_of b) (snd (api_register L E1 b s)))))"
    by (simp add: login logged_in_def)
  show "sess_username (sess (snd (api_login L E2 (login_of b) (snd (api_register L E1 b s)))))
           = Some ?u"
    by (simp add: login)
qed





subsection \<open>Who may read the admin data\<close>

text \<open>
  Claim C1, as the code has it.  Without an active session (\<^verbatim>\<open>req.session.userId\<close> absent
  or 0) the answer is status 401 with \<^verbatim>\<open>success: false\<close>.  With an active session whose
  lookup query is answered, the answer is status 403 with \<^verbatim>\<open>success: false\<close> and nothing
  else but the message when the \<^verbatim>\<open>users\<close> table has no row whose id is the session's user
  id, or the username of that row is not "admin".  A response carries a \<^verbatim>\<open>users\<close> or a
  \<^verbatim>\<open>messages\<close> block only if the session is active and that row's username is "admin"; the
  username kept in the session is not consulted.  Such a session does get both blocks,
  with status 200, when every query is answered and the page numbers are at least 1.
  When the lookup query is rejected the answer is status 500.  No case changes the state.
\<close>

theorem admin_data_authorization:
  "(\<not> logged_in (sess s) \<longrightarrow>
      api_admin_data E q s = (res_status_json 401 (fail_json msg_login_required), s))
   \<and> (logged_in (sess s) \<and> fail_at E \<noteq> Some 0
        \<and> (session_row_names s = [] \<or> hd (session_row_names s) \<noteq> ''admin'') \<longrightarrow>
      api_admin_data E q s = (res_status_json 403 (fail_json msg_forbidden), s))
   \<and> (field ''users'' (body (fst (api_admin_data E q s))) \<noteq> None
        \<or> field ''messages'' (body (fst (api_admin_data E q s))) \<noteq> None \<longrightarrow>
      logged_in (sess s) \<and> session_row_names s \<noteq> [] \<and> hd (session_row_names s) = ''admin'')
   \<and> (logged_in (sess s) \<and> session_row_names s \<noteq> [] \<and> hd (session_row_names s) = ''admin''
        \<and> fail_at E = None \<and> 1 \<le> page_param (page_users q) \<and> 1 \<le> page_param (page_msgs q)
        \<longrightarrow>
      status (fst (api_admin_data E q s)) = 200
      \<and> field ''users'' (body (fst (api_admin_data E q s))) \<noteq> None
      \<and> field ''messages'' (body (fst (api_admin_data E q s))) \<noteq> None)
   \<and> (logged_in (sess s) \<and> fail_at E = Some 0 \<longrightarrow>
      api_admin_data E q s = (res_status_json 500 (fail_json msg_system_error), s))
   \<and> snd (api_admin_data E q s) = s"
proof (intro conjI impI)
  assume "\<not> logged_in (sess s)"
  then show "api_admin_data E q s = (res_status_json 401 (fail_json msg_login_required), s)"
    by (simp add: api_admin_data_eq)
next
  assume "logged_in (sess s) \<and> fail_at E \<noteq> Some 0
        \<and> (session_row_names s = [] \<or> hd (session_row_names s) \<noteq> ''admin'')"
  then show "api_admin_data E q s = (res_status_json 403 (fail_json msg_forbidden), s)"
    by (simp add: api_admin_data_eq)
next
  assume b: "field ''users'' (body (fst (api_admin_data E q s))) \<noteq> None
        \<or> field ''messages'' (body (fst (api_admin_data E q s))) \<noteq> None"
  have f: "field k (body (res_status_json c (fail_json m))) = None"
    if "k = ''users'' \<or> k = ''messages''" for k c m
    using that by (auto simp: res_status_json_def fail_json_def field_def)
  from b show "logged_in (sess s)"
    by (auto simp: api_admin_data_eq f split: if_splits)
  from b show "session_row_names s \<noteq> []"
    by (auto simp: api_admin_data_eq f split: if_splits)
  from b show "hd (session_row_names s) = ''admin''"
    by (auto simp: api_admin_data_eq f split: if_splits)
next
  assume a: "logged_in (sess s) \<and> session_row_names s \<noteq> [] \<and> hd (session_row_names s) = ''admin''
        \<and> fail_at E = None \<and> 1 \<le> page_param (page_users q) \<and> 1 \<le> page_param (page_msgs q)"
  then have r: "fst (api_admin_data E q s)
      = res_json (admin_ok_json (db s) (page_param (page_users q)) (page_param (page_msgs q)))"
    by (simp add: api_admin_data_eq)
  show "status (fst (api_admin_data E q s)) = 200"
    by (simp add: r res_json_def)
  show "field ''users'' (body (fst (api_admin_data E q s))) \<noteq> None"
    by (simp add: r res_json_def admin_ok_json_def field_def)
  show "field ''messages'' (body (fst (api_admin_data E q s))) \<noteq> None"
    by (simp add: r res_json_def admin_ok_json_def field_def)
next
  assume "logged_in (sess s) \<and> fail_at E = Some 0"
  then show "api_admin_data E q s = (res_status_json 500 (fail_json msg_system_error), s)"
    by (simp add: api_admin_data_eq)
next
  show "snd (api_admin_data E q s) = s"
    by (simp add: api_admin_data_eq)
qed

text \<open>
  The four cases on the two-user sample: no session; the session of bob; the session of
  the administrator, who gets the \<^verbatim>\<open>users\<close> block; a rejected lookup.
\<close>

theorem admin_data_authorization_witness:
  "api_admin_data env_ok first_pages (state_of two_users_db no_session)
     = (res_status_json 401 (fail_json msg_login_required), state_of two_users_db no_session)
   \<and> api_admin_data env_ok first_pages (state_of two_users_db (session_of 2 ''bob''))
     = (res_status_json 403 (fail_json msg_forbidden),
        state_of two_users_db (session_of 2 ''bob''))
   \<and> field ''users'' (body (fst (api_admin_data env_ok first_pages
          (state_of two_users_db (session_of 1 ''admin''))))) \<noteq> None
   \<and> hd (session_row_names (state_of two_users_db (session_of 1 ''admin''))) = ''admin''
   \<and> api_admin_data (env_rejecting 0) first_pages (state_of two_users_db (session_of 2 ''bob''))
     = (res_status_json 500 (fail_json msg_system_error),
        state_of two_users_db (session_of 2 ''bob''))"
proof -
  let ?n = "state_of two_users_db no_session"
  let ?b = "state_of two_users_db (session_of 2 ''bob'')"
  let ?a = "state_of two_users_db (session_of 1 ''admin'')"
  have n: "\<not> logged_in (sess ?n)"
    by (simp add: state_of_def no_session_def logged_in_def)
  have b: "logged_in (sess ?b) \<and> fail_at env_ok \<noteq> Some 0
      \<and> (session_row_names ?b = [] \<or> hd (session_row_names ?b) \<noteq> ''admin'')"
    by (simp add: sample_logged_in sample_row_names env_ok_def)
  have a: "logged_in (sess ?a) \<and> session_row_names ?a \<noteq> []
      \<and> hd (session_row_names ?a) = ''admin'' \<and> fail_at env_ok = None
      \<and> 1 \<le> page_param (page_users first_pages) \<and> 1 \<le> page_param (page_msgs first_pages)"
    by (simp add: sample_logged_in sample_row_names env_ok_def first_pages_def
        page_param_missing)
  have r: "logged_in (sess ?b) \<and> fail_at (env_rejecting 0) = Some 0"
    by (simp add: sample_logged_in env_rejecting_def)
  note t = admin_data_authorization
  have "api_admin_data env_ok first_pages ?n
      = (res_status_json 401 (fail_json msg_login_required), ?n)"
    using t [of ?n env_ok first_pages, THEN conjunct1] n by (rule mp)
  moreover have "api_admin_data env_ok first_pages ?b
      = (res_status_json 403 (fail_json msg_forbidden), ?b)"
    using t [of ?b env_ok first_pages, THEN conjunct2, THEN conjunct1] b by (rule mp)
  moreover have "status (fst (api_admin_data env_ok first_pages ?a)) = 200
      \<and> field ''users'' (body (fst (api_admin_data env_ok first_pages ?a))) \<noteq> None
      \<and> field ''messages'' (body (fst (api_admin_data env_ok first_pages ?a))) \<noteq> None"
    using t [of ?a env_ok first_pages, THEN conjunct2, THEN conjunct2, THEN conjunct2,
        THEN conjunct1] a by (rule mp)
  moreover have "api_admin_data (env_rejecting 0) first_pages ?b
      = (res_status_json 500 (fail_json msg_system_error), ?b)"
    using t [of ?b "env_rejecting 0" first_pages, THEN conjunct2, THEN conjunct2,
        THEN conjunct2, THEN conjunct2, THEN conjunct1] r by (rule mp)
  ultimately show ?thesis
    using a by simp
qed

text \<open>
  Against claim C1 as stated: a session that is active and carries the username bob,
  while the row of its user id carries the username admin, is answered with status 200
  and the \<^verbatim>\<open>users\<close> block, not 403; and the session of bob (user id 2, username bob in
  session and row alike) is answered with status 500, not 403, when the lookup query is
  rejected.
\<close>

theorem admin_data_session_name_counterexample:
  "logged_in (sess (state_of two_users_db (session_of 1 ''bob'')))
   \<and> sess_username (sess (state_of two_users_db (session_of 1 ''bob''))) = Some ''bob''
   \<and> status (fst (api_admin_data env_ok first_pages
         (state_of two_users_db (session_of 1 ''bob'')))) = 200
   \<and> field ''users'' (body (fst (api_admin_data env_ok first_pages
         (state_of two_users_db (session_of 1 ''bob''))))) \<noteq> None
   \<and> logged_in (sess (state_of two_users_db (session_of 2 ''bob'')))
   \<and> sess_username (sess (state_of two_users_db (session_of 2 ''bob''))) = Some ''bob''
   \<and> status (fst (api_admin_data (env_rejecting 0) first_pages
         (state_of two_users_db (session_of 2 ''bob'')))) = 500"
  by (simp add: api_admin_data_eq sample_row_names page_param_missing first_pages_def
      env_ok_def env_rejecting_def res_json_def res_status_json_def admin_ok_json_def field_def)
     (simp add: state_of_def session_of_def logged_in_def)

subsection \<open>Login failures and the existence of the identifier\<close>

text \<open>
  Claim C2, as the code behaves.  Two logins carry the same password \<open>v\<close>, a truthy JSON
  value, and non-empty identifiers; the lookup of the first finds an account, the lookup
  of the second finds none, and the lookups are answered.  The second login is answered
  with the "wrong account or password" message.  When \<open>v\<close> is a string that fails the
  hash comparison, the first login gets the same message.  When \<open>v\<close> is not a string (a
  number, \<^verbatim>\<open>true\<close>, an array, an object), \<^verbatim>\<open>bcrypt.compare\<close> of line 72 rejects, which
  happens only after an account was found, and the first login is answered by the
  \<^verbatim>\<open>catch\<close> block of line 79 with the "system error" message: the two responses differ,
  and the difference tells that the identifier exists.  Neither login changes the state.
\<close>

theorem login_password_type_reveals_account:
  assumes "truthy (login_username b1)" and "truthy (login_username b2)"
    and "login_password b1 = Some v" and "login_password b2 = Some v"
    and "truthy_json (Some v)"
    and "fail_at E \<noteq> Some 0"
    and "select_users_by_username_or_email L (db s1) (str_of (login_username b1))
           (str_of (login_username b1)) = user # rest"
    and "select_users_by_username_or_email L (db s2) (str_of (login_username b2))
           (str_of (login_username b2)) = []"
  shows "api_login L E b2 s2 = (res_json (fail_json msg_bad_credentials), s2)
       \<and> (\<forall>p. v = JStr p \<and> \<not> bcrypt_compare L p (u_password user) \<longrightarrow>
             api_login L E b1 s1 = (res_json (fail_json msg_bad_credentials), s1))
       \<and> ((\<forall>p. v \<noteq> JStr p) \<longrightarrow>
             api_login L E b1 s1 = (res_json (fail_json msg_system_error), s1)
             \<and> fst (api_login L E b1 s1) \<noteq> fst (api_login L E b2 s2))"
proof (intro conjI allI impI)
  show b2: "api_login L E b2 s2 = (res_json (fail_json msg_bad_credentials), s2)"
    using assms(2,4,5,6,8) by (simp add: api_login_eq)
  show "api_login L E b1 s1 = (res_json (fail_json msg_bad_credentials), s1)"
    if "v = JStr p \<and> \<not> bcrypt_compare L p (u_password user)" for p
    using assms(1,3,5,6,7) that by (simp add: api_login_eq value_of_def)
  assume n: "\<forall>p. v \<noteq> JStr p"
  show b1: "api_login L E b1 s1 = (res_json (fail_json msg_system_error), s1)"
    using assms(1,3,5,6,7) n by (cases v) (simp_all add: api_login_eq value_of_def)
  show "fst (api_login L E b1 s1) \<noteq> fst (api_login L E b2 s2)"
    by (simp add: b1 b2 system_error_is_not_bad_credentials)
qed

text \<open>
  The JSON bodies \<^verbatim>\<open>{"username": "bob", "password": 123}\<close> and
  \<^verbatim>\<open>{"username": "nobody", "password": 123}\<close> against the two-user sample, in which bob
  has an account and nobody has none.
\<close>

theorem login_password_type_reveals_account_witness:
  "api_login sample_lib env_ok (numeric_login ''bob'') (state_of two_users_db no_session)
     = (res_json (fail_json msg_system_error), state_of two_users_db no_session)
   \<and> api_login sample_lib env_ok (numeric_login ''nobody'') (state_of two_users_db no_session)
     = (res_json (fail_json msg_bad_credentials), state_of two_users_db no_session)
   \<and> fst (api_login sample_lib env_ok (numeric_login ''bob'')
            (state_of two_users_db no_session))
     \<noteq> fst (api_login sample_lib env_ok (numeric_login ''nobody'')
            (state_of two_users_db no_session))"
proof -
  let ?s = "state_of two_users_db no_session"
  have t: "truthy (login_username (numeric_login ''bob''))"
      "truthy (login_username (numeric_login ''nobody''))"
    by (simp_all add: numeric_login_def truthy_def)
  have p: "login_password (numeric_login ''bob'') = Some (JNum 123)"
      "login_password (numeric_login ''nobody'') = Some (JNum 123)"
    by (simp_all add: numeric_login_def)
  have v: "truthy_json (Some (JNum 123))"
    by (simp add: truthy_json_def)
  have e: "fail_at env_ok \<noteq> Some 0"
    by (simp add: env_ok_def)
  have l1: "select_users_by_username_or_email sample_lib (db ?s)
              (str_of (login_username (numeric_login ''bob'')))
              (str_of (login_username (numeric_login ''bob''))) = sample_user 2 ''bob'' # []"
    by (simp add: numeric_login_def str_of_def state_of_def sample_lookup_bob)
  have l2: "select_users_by_username_or_email sample_lib (db ?s)
              (str_of (login_username (numeric_login ''nobody'')))
              (str_of (login_username (numeric_login ''nobody''))) = []"
    by (simp add: numeric_login_def str_of_def state_of_def sample_lookup_nobody)
  have n: "\<forall>p. JNum 123 \<noteq> JStr p"
    by simp
  note r = login_password_type_reveals_account [OF t p v e l1 l2]
  show ?thesis
    using r [THEN conjunct1] r [THEN conjunct2, THEN conjunct2, THEN mp, OF n]
    by blast
qed

subsection \<open>Status codes and failing requests\<close>




subsection \<open>Outcomes of a registration\<close>

text \<open>
  Claim C4, as the code has it.  If a field is empty or missing, or the password differs
  from the confirmation, the registration fails and the state (tables and session) is
  unchanged.  With valid fields and an answered duplicate check that finds a row whose
  username matches the submitted username or whose email matches the submitted email,
  the answer is the "already registered" failure and the state is unchanged; a row with
  the very same username or the very same email is such a row as soon as the collation
  finds that string equal to itself.  With valid fields, no such row and both queries
  answered, the answer is the success with the submitted username; the \<^verbatim>\<open>users\<close> table
  gains exactly one row at its end, holding the submitted username and email and the
  bcrypt hash of the password at cost factor 10; the \<^verbatim>\<open>messages\<close> table is unchanged; the
  session holds the new id and the username.
  With valid fields, when the duplicate check is rejected, or finds nothing and the insert
  is rejected, the answer is the "registration failed, system error" failure with status
  200 and the state is unchanged.
\<close>

theorem register_outcomes:
  "(\<not> register_fields_ok b \<longrightarrow>
      is_failure (fst (api_register L E b s)) \<and> snd (api_register L E b s) = s)
   \<and> (register_fields_ok b \<and> fail_at E \<noteq> Some 0
        \<and> select_users_by_username_or_email L (db s) (str_of (reg_username b))
             (str_of (reg_email b)) \<noteq> [] \<longrightarrow>
      api_register L E b s = (res_json (fail_json msg_already_registered), s))
   \<and> (register_fields_ok b \<and> fail_at E \<noteq> Some 0 \<and> r \<in> set (users (db s))
        \<and> (u_username r = str_of (reg_username b) \<and> collate_eq L (u_username r) (u_username r)
            \<or> u_email r = str_of (reg_email b) \<and> collate_eq L (u_email r) (u_email r)) \<longrightarrow>
      api_register L E b s = (res_json (fail_json msg_already_registered), s))
   \<and> (register_fields_ok b \<and> fail_at E \<noteq> Some 0 \<and> fail_at E \<noteq> Some 1
        \<and> select_users_by_username_or_email L (db s) (str_of (reg_username b))
             (str_of (reg_email b)) = [] \<longrightarrow>
      fst (api_register L E b s) = res_json (ok_json msg_register_ok (str_of (reg_username b)))
      \<and> users (db (snd (api_register L E b s)))
          = users (db s) @
            [\<lparr>u_id = Suc (users_last_id (db s)), u_username = str_of (reg_username b),
              u_email = str_of (reg_email b),
              u_password = bcrypt_hash L (str_of (reg_password b)) 10 (salt E),
              u_created_at = now E\<rparr>]
      \<and> messages (db (snd (api_register L E b s))) = messages (db s)
      \<and> sess_userId (sess (snd (api_register L E b s))) = Some (Suc (users_last_id (db s)))
      \<and> sess_username (sess (snd (api_register L E b s))) = Some (str_of (reg_username b))
      \<and> logged_in (sess (snd (api_register L E b s))))
   \<and> (register_fields_ok b
        \<and> (fail_at E = Some 0
            \<or> fail_at E = Some 1
               \<and> select_users_by_username_or_email L (db s) (str_of (reg_username b))
                    (str_of (reg_email b)) = []) \<longrightarrow>
      api_register L E b s = (res_json (fail_json msg_register_failed), s))"
proof -
  have "select_users_by_username_or_email L (db s) (str_of (reg_username b))
          (str_of (reg_email b)) \<noteq> []"
    if "r \<in> set (users (db s))"
      and "u_username r = str_of (reg_username b) \<and> collate_eq L (u_username r) (u_username r)
           \<or> u_email r = str_of (reg_email b) \<and> collate_eq L (u_email r) (u_email r)"
    unfolding select_users_by_username_or_email_def filter_empty_conv
    using that by (intro notI) fastforce
  then show ?thesis
    by (auto simp: api_register_eq register_fields_ok_def res_json_def failure_fail_json
        logged_in_def)
qed

text \<open>
  On the samples: a registration without confirmation; the username admin, which is
  taken; carol, who is new; carol again while the insert is rejected.
\<close>

theorem register_outcomes_witness:
  "is_failure (fst (api_register sample_lib env_ok
       (sample_registration\<lparr>reg_confirm_password := None\<rparr>) (state_of two_users_db no_session)))
   \<and> api_register sample_lib env_ok
        (sample_registration\<lparr>reg_username := Some ''admin'', reg_email := Some ''x@example.org''\<rparr>)
        (state_of two_users_db no_session)
      = (res_json (fail_json msg_already_registered), state_of two_users_db no_session)
   \<and> fst (api_register sample_lib env_ok sample_registration (state_of two_users_db no_session))
      = res_json (ok_json msg_register_ok ''carol'')
   \<and> users (db (snd (api_register sample_lib env_ok sample_registration
                        (state_of two_users_db no_session))))
      = users two_users_db @
        [\<lparr>u_id = 3, u_username = ''carol'', u_email = ''carol@example.org'',
          u_password = ''saltsecret'', u_created_at = 1000\<rparr>]
   \<and> sess_userId (sess (snd (api_register sample_lib env_ok sample_registration
                               (state_of two_users_db no_session)))) = Some 3
   \<and> api_register sample_lib (env_rejecting 1) sample_registration
        (state_of two_users_db no_session)
      = (res_json (fail_json msg_register_failed), state_of two_users_db no_session)"
proof -
  let ?s = "state_of two_users_db no_session"
  let ?taken = "sample_registration\<lparr>reg_username := Some ''admin'',
                                    reg_email := Some ''x@example.org''\<rparr>"
  have v: "\<not> register_fields_ok (sample_registration\<lparr>reg_confirm_password := None\<rparr>)"
      "register_fields_ok ?taken"
    by (simp_all add: register_fields_ok_def sample_registration_def truthy_def)
  have t: "select_users_by_username_or_email sample_lib (db ?s) (str_of (reg_username ?taken))
             (str_of (reg_email ?taken)) \<noteq> []"
    by (simp add: state_of_def str_of_def sample_lookup_admin)
  have c: "select_users_by_username_or_email sample_lib (db ?s)
             (str_of (reg_username sample_registration))
             (str_of (reg_email sample_registration)) = []"
    by (simp add: state_of_def sample_registration_strings sample_lookup_carol)
  have e: "fail_at env_ok \<noteq> Some 0" "fail_at env_ok \<noteq> Some 1" "fail_at (env_rejecting 1) = Some 1"
    by (simp_all add: env_ok_def env_rejecting_def)
  have m: "sample_user 1 ''admin'' \<in> set (users (db ?s))"
      "u_username (sample_user 1 ''admin'') = str_of (reg_username ?taken)"
      "collate_eq sample_lib (u_username (sample_user 1 ''admin''))
         (u_username (sample_user 1 ''admin''))"
    by (simp_all add: state_of_def two_users_db_def sample_user_def str_of_def sample_lib_def)
  have d: "users_last_id (db ?s) = 2" "db ?s = two_users_db"
      "bcrypt_hash sample_lib ''secret'' 10 (salt env_ok) = ''saltsecret''" "now env_ok = 1000"
    by (simp_all add: state_of_def two_users_db_def sample_lib_def env_ok_def)
  from register_outcomes [of "sample_registration\<lparr>reg_confirm_password := None\<rparr>"
        sample_lib env_ok ?s]
    register_outcomes [of ?taken sample_lib env_ok ?s "sample_user 1 ''admin''"]
    register_outcomes [of sample_registration sample_lib env_ok ?s]
    register_outcomes [of sample_registration sample_lib "env_rejecting 1" ?s]
    v t c e d m sample_registration_ok
  show ?thesis
    by (simp add: sample_registration_strings)
qed

text \<open>
  Against claim C4 as stated: the fields are valid and no user exists, so the claim
  promises one inserted row, a session and a success; the insert is rejected, and the
  handler answers with a failure and leaves the table empty and the session absent.
\<close>

theorem register_rejected_insert_counterexample:
  "register_fields_ok sample_registration
   \<and> users (db fresh_state) = []
   \<and> is_failure (fst (api_register sample_lib (env_rejecting 1) sample_registration fresh_state))
   \<and> snd (api_register sample_lib (env_rejecting 1) sample_registration fresh_state)
       = fresh_state"
proof -
  have "api_register sample_lib (env_rejecting 1) sample_registration fresh_state
          = (res_json (fail_json msg_register_failed), fresh_state)"
    using sample_registration_ok
    by (simp add: api_register_eq register_fields_ok_def sample_lookup_carol env_rejecting_def)
  then show ?thesis
    by (simp add: sample_registration_ok res_json_def failure_fail_json fresh_state_def)
qed

subsection \<open>Pagination of the admin data\<close>

text \<open>
  Claim C5, as the code has it.  Take a request of an active session whose row in the
  \<^verbatim>\<open>users\<close> table has the username "admin".  The page number of a block is the number
  that JavaScript reads from the parameter, \<^verbatim>\<open>parseInt(v) || 1\<close> (1 for a missing
  parameter).
  \<^item> When none of the five queries is rejected and both page numbers are at least 1 with
    offsets (page-1)*10 up to \<open>2 ^ 53\<close>, the answer is status 200 with \<^verbatim>\<open>success: true\<close>
    and two blocks.  Each block has \<^verbatim>\<open>per_page\<close> 10, \<^verbatim>\<open>current_page\<close> the page number,
    \<^verbatim>\<open>total\<close> the number of rows of the table, \<^verbatim>\<open>total_pages\<close> the ceiling of total/10 (0
    for an empty table), and as \<^verbatim>\<open>data\<close> the rows from offset (page-1)*10 on, at most 10
    of them, newest first: their number is the smaller of 10 and total minus offset.
    The state is unchanged.
  \<^item> When one of the five queries is rejected, or a page number is below 1 (the offset
    is negative and MySQL refuses the statement), the answer is status 500 with the
    "system error" message and without blocks, and the state is unchanged.
\<close>

theorem admin_pagination:
  assumes "logged_in (sess s)"
    and "session_row_names s \<noteq> []" and "hd (session_row_names s) = ''admin''"
  shows "(fail_at E \<notin> {Some 0, Some 1, Some 2, Some 3, Some 4}
          \<and> 1 \<le> page_param (page_users q) \<and> (page_param (page_users q) - 1) * 10 \<le> 2 ^ 53
          \<and> 1 \<le> page_param (page_msgs q) \<and> (page_param (page_msgs q) - 1) * 10 \<le> 2 ^ 53
          \<longrightarrow>
          (\<exists>urows mrows.
            api_admin_data E q s =
              (\<lparr>status = 200,
                body = JObj
                  [(''success'', JBool True),
                   (''users'', JObj
                      [(''data'', JArr urows),
                       (''total'', JNum (int (length (users (db s))))),
                       (''current_page'', JNum (page_param (page_users q))),
                       (''per_page'', JNum 10),
                       (''total_pages'', JNum \<lceil>real (length (users (db s))) / 10\<rceil>)]),
                   (''messages'', JObj
                      [(''data'', JArr mrows),
                       (''total'', JNum (int (length (messages (db s))))),
                       (''current_page'', JNum (page_param (page_msgs q))),
                       (''per_page'', JNum 10),
                       (''total_pages'', JNum \<lceil>real (length (messages (db s))) / 10\<rceil>)])]\<rparr>,
               s)
            \<and> urows = map user_json
                  (take 10 (drop (nat ((page_param (page_users q) - 1) * 10))
                     (rev (sort_key u_created_at (users (db s))))))
            \<and> length urows
                = min 10 (length (users (db s)) - nat ((page_param (page_users q) - 1) * 10))
            \<and> mrows = map (message_json (db s))
                  (take 10 (drop (nat ((page_param (page_msgs q) - 1) * 10))
                     (rev (sort_key m_created_at (messages (db s))))))
            \<and> length mrows
                = min 10 (length (messages (db s)) - nat ((page_param (page_msgs q) - 1) * 10))))
       \<and> (fail_at E \<in> {Some 0, Some 1, Some 2, Some 3, Some 4}
            \<or> page_param (page_users q) < 1 \<or> page_param (page_msgs q) < 1 \<longrightarrow>
          api_admin_data E q s = (res_status_json 500 (fail_json msg_system_error), s)
          \<and> field ''users'' (body (fst (api_admin_data E q s))) = None
          \<and> field ''messages'' (body (fst (api_admin_data E q s))) = None)
       \<and> \<lceil>real (length (users (db s))) / 10\<rceil> = (int (length (users (db s))) + 9) div 10
       \<and> \<lceil>real (length (messages (db s))) / 10\<rceil> = (int (length (messages (db s))) + 9) div 10
       \<and> (users (db s) = [] \<longrightarrow> \<lceil>real (length (users (db s))) / 10\<rceil> = 0)
       \<and> (messages (db s) = [] \<longrightarrow> \<lceil>real (length (messages (db s))) / 10\<rceil> = 0)
       \<and> page_param None = 1"
proof (intro conjI impI)
  have c: "\<lceil>real n / 10\<rceil> = (int n + 9) div 10" for n
    using total_pages_div [of "int n"] by (simp add: total_pages_def)
  show "\<lceil>real (length (users (db s))) / 10\<rceil> = (int (length (users (db s))) + 9) div 10"
    by (rule c)
  show "\<lceil>real (length (messages (db s))) / 10\<rceil> = (int (length (messages (db s))) + 9) div 10"
    by (rule c)
  show "\<lceil>real (length (users (db s))) / 10\<rceil> = 0" if "users (db s) = []"
    using that by simp
  show "\<lceil>real (length (messages (db s))) / 10\<rceil> = 0" if "messages (db s) = []"
    using that by simp
  show "page_param None = 1"
    by (rule page_param_missing)
next
  assume a: "fail_at E \<notin> {Some 0, Some 1, Some 2, Some 3, Some 4}
          \<and> 1 \<le> page_param (page_users q) \<and> (page_param (page_users q) - 1) * 10 \<le> 2 ^ 53
          \<and> 1 \<le> page_param (page_msgs q) \<and> (page_param (page_msgs q) - 1) * 10 \<le> 2 ^ 53"
  have ou: "js_times (js_minus (page_param (page_users q)) 1) 10
      = (page_param (page_users q) - 1) * 10"
    using a by (simp add: js_offset_exact)
  have om: "js_times (js_minus (page_param (page_msgs q)) 1) 10
      = (page_param (page_msgs q) - 1) * 10"
    using a by (simp add: js_offset_exact)
  have "api_admin_data E q s =
      (res_json (admin_ok_json (db s) (page_param (page_users q)) (page_param (page_msgs q))), s)"
    using assms a by (simp add: api_admin_data_eq)
  then show "\<exists>urows mrows.
            api_admin_data E q s =
              (\<lparr>status = 200,
                body = JObj
                  [(''success'', JBool True),
                   (''users'', JObj
                      [(''data'', JArr urows),
                       (''total'', JNum (int (length (users (db s))))),
                       (''current_page'', JNum (page_param (page_users q))),
                       (''per_page'', JNum 10),
                       (''total_pages'', JNum \<lceil>real (length (users (db s))) / 10\<rceil>)]),
                   (''messages'', JObj
                      [(''data'', JArr mrows),
                       (''total'', JNum (int (length (messages (db s))))),
                       (''current_page'', JNum (page_param (page_msgs q))),
                       (''per_page'', JNum 10),
                       (''total_pages'', JNum \<lceil>real (length (messages (db s))) / 10\<rceil>)])]\<rparr>,
               s)
            \<and> urows = map user_json
                  (take 10 (drop (nat ((page_param (page_users q) - 1) * 10))
                     (rev (sort_key u_created_at (users (db s))))))
            \<and> length urows
                = min 10 (length (users (db s)) - nat ((page_param (page_users q) - 1) * 10))
            \<and> mrows = map (message_json (db s))
                  (take 10 (drop (nat ((page_param (page_msgs q) - 1) * 10))
                     (rev (sort_key m_created_at (messages (db s))))))
            \<and> length mrows
                = min 10 (length (messages (db s)) - nat ((page_param (page_msgs q) - 1) * 10))"
    by (simp add: res_json_def admin_ok_json_def pagination_def count_users_def
        count_messages_def total_pages_def ou om min.commute)
next
  assume b: "fail_at E \<in> {Some 0, Some 1, Some 2, Some 3, Some 4}
            \<or> page_param (page_users q) < 1 \<or> page_param (page_msgs q) < 1"
  show r: "api_admin_data E q s = (res_status_json 500 (fail_json msg_system_error), s)"
    using assms b by (auto simp: api_admin_data_eq)
  show "field ''users'' (body (fst (api_admin_data E q s))) = None"
    by (simp add: r admin_system_error_no_blocks)
  show "field ''messages'' (body (fst (api_admin_data E q s))) = None"
    by (simp add: r admin_system_error_no_blocks)
qed

text \<open>
  The administrator of the 25-user sample: the first page (no parameter) has 10 rows,
  the page "3" has 5 rows, and both report 3 pages; when the query for the page of users
  (the third query of the handler) is rejected, the answer is the system error.
\<close>

theorem admin_pagination_witness:
  "(\<exists>urows mrows.
      fst (api_admin_data env_ok first_pages (state_of many_users_db (session_of 1 ''admin'')))
        = \<lparr>status = 200,
           body = JObj
             [(''success'', JBool True),
              (''users'', JObj
                 [(''data'', JArr urows), (''total'', JNum 25), (''current_page'', JNum 1),
                  (''per_page'', JNum 10), (''total_pages'', JNum 3)]),
              (''messages'', JObj
                 [(''data'', JArr mrows), (''total'', JNum 0), (''current_page'', JNum 1),
                  (''per_page'', JNum 10), (''total_pages'', JNum 0)])]\<rparr>
      \<and> length urows = 10 \<and> length mrows = 0)
   \<and> (\<exists>urows mrows.
      fst (api_admin_data env_ok (first_pages\<lparr>page_users := Some ''3''\<rparr>)
             (state_of many_users_db (session_of 1 ''admin'')))
        = \<lparr>status = 200,
           body = JObj
             [(''success'', JBool True),
              (''users'', JObj
                 [(''data'', JArr urows), (''total'', JNum 25), (''current_page'', JNum 3),
                  (''per_page'', JNum 10), (''total_pages'', JNum 3)]),
              (''messages'', JObj
                 [(''data'', JArr mrows), (''total'', JNum 0), (''current_page'', JNum 1),
                  (''per_page'', JNum 10), (''total_pages'', JNum 0)])]\<rparr>
      \<and> length urows = 5 \<and> length mrows = 0)
   \<and> api_admin_data (env_rejecting 2) first_pages
        (state_of many_users_db (session_of 1 ''admin''))
      = (res_status_json 500 (fail_json msg_system_error),
         state_of many_users_db (session_of 1 ''admin''))"
proof -
  let ?s = "state_of many_users_db (session_of 1 ''admin'')"
  let ?q = "first_pages\<lparr>page_users := Some ''3''\<rparr>"
  have l: "logged_in (sess ?s)"
    by (simp add: sample_logged_in)
  have r: "session_row_names ?s \<noteq> []" "hd (session_row_names ?s) = ''admin''"
    by (simp_all add: many_users_row_names)
  have p1: "page_param (page_users first_pages) = 1" "page_param (page_msgs first_pages) = 1"
      "page_param (page_msgs ?q) = 1"
    by (simp_all add: first_pages_def page_param_missing)
  have p3: "page_param (page_users ?q) = 3"
    by (simp add: page_param_def parseInt_three)
  have n: "length (users (db ?s)) = 25" "length (messages (db ?s)) = 0"
    by (simp_all add: state_of_def many_users_length) (simp add: many_users_db_def)
  have a1: "fail_at env_ok \<notin> {Some 0, Some 1, Some 2, Some 3, Some 4}
      \<and> 1 \<le> page_param (page_users first_pages)
      \<and> (page_param (page_users first_pages) - 1) * 10 \<le> 2 ^ 53
      \<and> 1 \<le> page_param (page_msgs first_pages)
      \<and> (page_param (page_msgs first_pages) - 1) * 10 \<le> 2 ^ 53"
    by (simp add: p1 env_ok_def)
  have a3: "fail_at env_ok \<notin> {Some 0, Some 1, Some 2, Some 3, Some 4}
      \<and> 1 \<le> page_param (page_users ?q) \<and> (page_param (page_users ?q) - 1) * 10 \<le> 2 ^ 53
      \<and> 1 \<le> page_param (page_msgs ?q) \<and> (page_param (page_msgs ?q) - 1) * 10 \<le> 2 ^ 53"
    using p1 p3 by (simp add: env_ok_def page_param_def parseInt_three)
  have b: "fail_at (env_rejecting 2) \<in> {Some 0, Some 1, Some 2, Some 3, Some 4}
      \<or> page_param (page_users first_pages) < 1 \<or> page_param (page_msgs first_pages) < 1"
    by (simp add: env_rejecting_def)
  note t = admin_pagination [OF l r]
  note c = t [where E = env_ok and q = first_pages, THEN conjunct2, THEN conjunct2,
      THEN conjunct1]
  from t [where E = env_ok and q = first_pages, THEN conjunct1, THEN mp, OF a1]
  obtain u1 m1 where
    "api_admin_data env_ok first_pages ?s =
        (\<lparr>status = 200,
          body = JObj
            [(''success'', JBool True),
             (''users'', JObj
                [(''data'', JArr u1), (''total'', JNum 25), (''current_page'', JNum 1),
                 (''per_page'', JNum 10), (''total_pages'', JNum 3)]),
             (''messages'', JObj
                [(''data'', JArr m1), (''total'', JNum 0), (''current_page'', JNum 1),
                 (''per_page'', JNum 10), (''total_pages'', JNum 0)])]\<rparr>, ?s)"
    "length u1 = 10" "length m1 = 0"
    using p1 n c by auto
  moreover from t [where E = env_ok and q = ?q, THEN conjunct1, THEN mp, OF a3]
  obtain u3 m3 where
    "api_admin_data env_ok ?q ?s =
        (\<lparr>status = 200,
          body = JObj
            [(''success'', JBool True),
             (''users'', JObj
                [(''data'', JArr u3), (''total'', JNum 25), (''current_page'', JNum 3),
                 (''per_page'', JNum 10), (''total_pages'', JNum 3)]),
             (''messages'', JObj
                [(''data'', JArr m3), (''total'', JNum 0), (''current_page'', JNum 1),
                 (''per_page'', JNum 10), (''total_pages'', JNum 0)])]\<rparr>, ?s)"
    "length u3 = 5" "length m3 = 0"
    using p1 p3 n c by auto
  moreover have "api_admin_data (env_rejecting 2) first_pages ?s
      = (res_status_json 500 (fail_json msg_system_error), ?s)"
    using t [where E = "env_rejecting 2" and q = first_pages, THEN conjunct2, THEN conjunct1,
        THEN mp, OF b] by (rule conjunct1)
  ultimately show ?thesis
    by simp
qed

text \<open>
  Against claim C5 as stated, for the administrator of the 25-user sample.  When the
  query for the page of users is rejected, the answer has status 500 and no \<^verbatim>\<open>users\<close>
  block.  For the page number "-1" the offset is -20, which MySQL refuses in
  \<^verbatim>\<open>LIMIT ? OFFSET ?\<close>, so the answer has status 500 as well, with every query of the
  environment answered.  And for the page number "9007199254740993", which no double
  holds, \<^verbatim>\<open>current_page\<close> is 9007199254740992, not the requested page.
\<close>

theorem admin_pagination_counterexample:
  "logged_in (sess (state_of many_users_db (session_of 1 ''admin'')))
   \<and> session_row_names (state_of many_users_db (session_of 1 ''admin'')) = [''admin'']
   \<and> status (fst (api_admin_data (env_rejecting 2) first_pages
                     (state_of many_users_db (session_of 1 ''admin'')))) = 500
   \<and> field ''users'' (body (fst (api_admin_data (env_rejecting 2) first_pages
                     (state_of many_users_db (session_of 1 ''admin''))))) = None
   \<and> page_param (Some ''-1'') = - 1
   \<and> status (fst (api_admin_data env_ok (first_pages\<lparr>page_users := Some ''-1''\<rparr>)
                     (state_of many_users_db (session_of 1 ''admin'')))) = 500
   \<and> page_param (Some ''9007199254740993'') = 9007199254740992
   \<and> (\<exists>rows pages.
        field ''users''
          (body (fst (api_admin_data env_ok (first_pages\<lparr>page_users := Some ''9007199254740993''\<rparr>)
                        (state_of many_users_db (session_of 1 ''admin'')))))
        = Some (JObj [(''data'', JArr rows), (''total'', JNum 25),
                      (''current_page'', JNum 9007199254740992), (''per_page'', JNum 10),
                      (''total_pages'', JNum pages)]))"
proof -
  have p: "page_param (Some ''-1'') = - 1"
      "page_param (Some ''9007199254740993'') = 9007199254740992"
    by (simp_all add: page_param_def parseInt_minus_one parseInt_rounded)
  show ?thesis
    by (simp add: api_admin_data_eq many_users_row_names sample_logged_in env_rejecting_def
        env_ok_def res_status_json_def res_json_def fail_json_def field_def p
        first_pages_def page_param_missing admin_ok_json_def pagination_def count_users_def)
      (simp add: state_of_def many_users_length)
qed

subsection \<open>No password in any payload\<close>



subsection \<open>Outcomes of a contact submission\<close>

text \<open>
  Claim C7, as the code has it.  Without an active session the answer is status 401 with
  \<^verbatim>\<open>success: false\<close> and the state is unchanged.  With an active session and a field that
  is empty or missing, the answer is the "fill in all fields" failure and the state is
  unchanged.  With an active session, four non-empty fields and an insert that the
  database accepts (the query is not rejected and the session's user id is the id of a
  user), the answer is \<^verbatim>\<open>success: true\<close>; the \<^verbatim>\<open>messages\<close> table gains exactly one row at
  its end, holding the four fields and the session's user id; users and session are
  unchanged.  With an active session and four non-empty fields, when the insert is
  rejected or the session's user id is not the id of a user, the answer is the "sending
  failed" failure with status 200 and the state is unchanged.
\<close>

theorem contact_outcomes:
  "(\<not> logged_in (sess s) \<longrightarrow>
      api_contact E b s = (res_status_json 401 (fail_json msg_login_required_member), s))
   \<and> (logged_in (sess s) \<and> \<not> contact_fields_ok b \<longrightarrow>
      api_contact E b s = (res_json (fail_json msg_fill_all_fields), s))
   \<and> (logged_in (sess s) \<and> contact_fields_ok b \<and> fail_at E \<noteq> Some 0
        \<and> session_row_names s \<noteq> [] \<longrightarrow>
      fst (api_contact E b s)
        = res_json (JObj [(''success'', JBool True), (''message'', JStr msg_contact_ok)])
      \<and> messages (db (snd (api_contact E b s)))
          = messages (db s) @
            [\<lparr>m_id = Suc (messages_last_id (db s)), m_user_id = sess_userId (sess s),
              m_name = str_of (contact_name b), m_email = str_of (contact_email b),
              m_subject = str_of (contact_subject b), m_message = str_of (contact_message b),
              m_created_at = now E\<rparr>]
      \<and> users (db (snd (api_contact E b s))) = users (db s)
      \<and> sess (snd (api_contact E b s)) = sess s)
   \<and> (logged_in (sess s) \<and> contact_fields_ok b
        \<and> (fail_at E = Some 0 \<or> session_row_names s = []) \<longrightarrow>
      api_contact E b s = (res_json (fail_json msg_contact_failed), s))"
proof -
  have "logged_in (sess s) \<Longrightarrow> Some (userId_of (sess s)) = sess_userId (sess s)"
    by (simp add: logged_in_def userId_of_def split: option.splits)
  then show ?thesis
    by (auto simp: api_contact_eq contact_fields_ok_def)
qed

text \<open>
  On the two-user sample: a submission without a session; bob without a subject; bob
  with all fields; bob with all fields while the insert is rejected.
\<close>

theorem contact_outcomes_witness:
  "api_contact env_ok sample_contact (state_of two_users_db no_session)
     = (res_status_json 401 (fail_json msg_login_required_member),
        state_of two_users_db no_session)
   \<and> api_contact env_ok (sample_contact\<lparr>contact_subject := Some ''''\<rparr>)
        (state_of two_users_db (session_of 2 ''bob''))
     = (res_json (fail_json msg_fill_all_fields), state_of two_users_db (session_of 2 ''bob''))
   \<and> fst (api_contact env_ok sample_contact (state_of two_users_db (session_of 2 ''bob'')))
     = res_json (JObj [(''success'', JBool True), (''message'', JStr msg_contact_ok)])
   \<and> messages (db (snd (api_contact env_ok sample_contact
                           (state_of two_users_db (session_of 2 ''bob'')))))
     = [\<lparr>m_id = 1, m_user_id = Some 2, m_name = ''Bob'', m_email = ''bob@example.org'',
         m_subject = ''Hello'', m_message = ''A question'', m_created_at = 1000\<rparr>]
   \<and> api_contact (env_rejecting 0) sample_contact (state_of two_users_db (session_of 2 ''bob''))
     = (res_json (fail_json msg_contact_failed), state_of two_users_db (session_of 2 ''bob''))"
proof -
  let ?n = "state_of two_users_db no_session"
  let ?b = "state_of two_users_db (session_of 2 ''bob'')"
  have l: "\<not> logged_in (sess ?n)" "logged_in (sess ?b)"
    by (simp_all add: sample_not_logged_in sample_logged_in)
  have v: "\<not> contact_fields_ok (sample_contact\<lparr>contact_subject := Some ''''\<rparr>)"
    by (simp add: contact_fields_ok_def truthy_def)
  have r: "session_row_names ?b \<noteq> []"
    by (simp add: sample_row_names)
  have e: "fail_at env_ok \<noteq> Some 0" "fail_at (env_rejecting 0) = Some 0" "now env_ok = 1000"
    by (simp_all add: env_ok_def env_rejecting_def)
  have d: "messages (db ?b) = []" "messages_last_id (db ?b) = 0"
      "sess_userId (sess ?b) = Some 2"
      "str_of (contact_name sample_contact) = ''Bob''"
      "str_of (contact_email sample_contact) = ''bob@example.org''"
      "str_of (contact_subject sample_contact) = ''Hello''"
      "str_of (contact_message sample_contact) = ''A question''"
    by (simp_all add: state_of_def two_users_db_def session_of_def sample_contact_def str_of_def)
  from contact_outcomes [of ?n env_ok sample_contact]
    contact_outcomes [of ?b env_ok "sample_contact\<lparr>contact_subject := Some ''''\<rparr>"]
    contact_outcomes [of ?b env_ok sample_contact]
    contact_outcomes [of ?b "env_rejecting 0" sample_contact]
    l v r e d sample_contact_ok
  show ?thesis
    by simp
qed

text \<open>
  Against claim C7 as stated: bob is logged in and the four fields are non-empty, so the
  claim promises one inserted row and \<^verbatim>\<open>success: true\<close>; the insert is rejected, and the
  handler answers with a failure and inserts nothing.  The same happens, with every query
  of the environment answered, for the active session of the user id 7, which is the id
  of no user: the foreign key of \<^verbatim>\<open>messages.user_id\<close> (src/db.js, line 52) refuses the row.
\<close>

theorem contact_rejected_insert_counterexample:
  "logged_in (sess (state_of two_users_db (session_of 2 ''bob'')))
   \<and> contact_fields_ok sample_contact
   \<and> is_failure (fst (api_contact (env_rejecting 0) sample_contact
                        (state_of two_users_db (session_of 2 ''bob''))))
   \<and> snd (api_contact (env_rejecting 0) sample_contact
             (state_of two_users_db (session_of 2 ''bob'')))
       = state_of two_users_db (session_of 2 ''bob'')
   \<and> logged_in (sess (state_of two_users_db (session_of 7 ''dave'')))
   \<and> is_failure (fst (api_contact env_ok sample_contact
                        (state_of two_users_db (session_of 7 ''dave''))))
   \<and> snd (api_contact env_ok sample_contact (state_of two_users_db (session_of 7 ''dave'')))
       = state_of two_users_db (session_of 7 ''dave'')"
proof -
  have "api_contact (env_rejecting 0) sample_contact
          (state_of two_users_db (session_of 2 ''bob''))
        = (res_json (fail_json msg_contact_failed),
           state_of two_users_db (session_of 2 ''bob''))"
    using sample_contact_ok
    by (simp add: api_contact_eq contact_fields_ok_def sample_logged_in env_rejecting_def)
  moreover have "api_contact env_ok sample_contact
          (state_of two_users_db (session_of 7 ''dave''))
        = (res_json (fail_json msg_contact_failed),
           state_of two_users_db (session_of 7 ''dave''))"
    using sample_contact_ok
    by (simp add: api_contact_eq contact_fields_ok_def sample_logged_in sample_row_names)
  ultimately show ?thesis
    by (simp add: sample_contact_ok sample_logged_in res_json_def failure_fail_json)
qed

subsection \<open>Register, log in, check, log out\<close>

text \<open>
  Claim C8, as the code has it.  Start from a state in which the username and the email
  are new (neither the duplicate check of the registration nor the lookup of the login
  finds a row; a state with no user at all is one), take valid registration fields (all
  non-empty, password equal to its confirmation), let every query of the registration
  and of the login be answered, and let the libraries behave: the collation
  finds the username equal to itself, and \<^verbatim>\<open>bcrypt.compare\<close> accepts the password against
  the hash \<^verbatim>\<open>bcrypt.hash\<close> made of it.  Then the registration succeeds with the username,
  the login with the same username and password succeeds, \<^verbatim>\<open>check_auth\<close> reports
  \<^verbatim>\<open>isLoggedIn: true\<close> with that username, the logout succeeds, and \<^verbatim>\<open>check_auth\<close> then
  reports \<^verbatim>\<open>isLoggedIn: false\<close>.  In every state \<open>t\<close>: the logout succeeds and leaves no
  active session, also when there was none; \<^verbatim>\<open>check_auth\<close> leaves the state as it is and
  reports \<^verbatim>\<open>isLoggedIn: false\<close> when no session is active.
\<close>

theorem register_login_roundtrip:
  assumes "select_users_by_username_or_email L (db s) (str_of (reg_username b))
             (str_of (reg_email b)) = []"
    and "select_users_by_username_or_email L (db s) (str_of (reg_username b))
             (str_of (reg_username b)) = []"
    and "register_fields_ok b"
    and "fail_at E1 = None" and "fail_at E2 = None"
    and "collate_eq L (str_of (reg_username b)) (str_of (reg_username b))"
    and "bcrypt_compare L (str_of (reg_password b))
           (bcrypt_hash L (str_of (reg_password b)) 10 (salt E1))"
  shows "(let u = str_of (reg_username b);
              (r1, s1) = api_register L E1 b s;
              (r2, s2) = api_login L E2 (login_of b) s1;
              (r3, s3) = api_check_auth s2;
              (r4, s4) = api_logout s3;
              (r5, s5) = api_check_auth s4
          in r1 = res_json (ok_json msg_register_ok u)
           \<and> r2 = res_json (ok_json msg_login_ok u)
           \<and> r3 = res_json (JObj [(''isLoggedIn'', JBool True), (''username'', JStr u)])
           \<and> s3 = s2
           \<and> r4 = res_json (JObj [(''success'', JBool True)])
           \<and> r5 = res_json (JObj [(''isLoggedIn'', JBool False)])
           \<and> s5 = s4)
       \<and> fst (api_logout t) = res_json (JObj [(''success'', JBool True)])
       \<and> \<not> logged_in (sess (snd (api_logout t)))
       \<and> snd (api_check_auth t) = t
       \<and> (\<not> logged_in (sess t) \<longrightarrow>
            fst (api_check_auth t) = res_json (JObj [(''isLoggedIn'', JBool False)]))"
proof -
  note rl = register_then_login [OF assms]
  let ?s2 = "snd (api_login L E2 (login_of b) (snd (api_register L E1 b s)))"
  have c: "fst (api_check_auth ?s2)
      = res_json (JObj [(''isLoggedIn'', JBool True), (''username'', JStr (str_of (reg_username b)))])"
    using rl(3,4) by (rule api_check_auth_logged_in)
  have o: "fst (api_check_auth (snd (api_logout ?s2)))
      = res_json (JObj [(''isLoggedIn'', JBool False)])"
    by (rule api_check_auth_logged_out) (rule api_logout_eq)
  show ?thesis
    by (simp add: Let_def split_beta rl(1,2) c o api_check_auth_state api_logout_eq
        api_check_auth_logged_out)
qed

text \<open>The registration of carol in the state that has no user and no session.\<close>

theorem register_login_roundtrip_witness:
  "fst (api_register sample_lib env_ok sample_registration fresh_state)
     = res_json (ok_json msg_register_ok ''carol'')
   \<and> fst (api_login sample_lib env_ok (login_of sample_registration)
            (snd (api_register sample_lib env_ok sample_registration fresh_state)))
     = res_json (ok_json msg_login_ok ''carol'')
   \<and> fst (api_check_auth
            (snd (api_login sample_lib env_ok (login_of sample_registration)
                    (snd (api_register sample_lib env_ok sample_registration fresh_state)))))
     = res_json (JObj [(''isLoggedIn'', JBool True), (''username'', JStr ''carol'')])
   \<and> fst (api_check_auth (snd (api_logout
            (snd (api_login sample_lib env_ok (login_of sample_registration)
                    (snd (api_register sample_lib env_ok sample_registration fresh_state)))))))
     = res_json (JObj [(''isLoggedIn'', JBool False)])
   \<and> fst (api_check_auth fresh_state) = res_json (JObj [(''isLoggedIn'', JBool False)])"
proof -
  have f: "\<not> logged_in (sess fresh_state)"
    by (simp add: fresh_state_def no_session_def logged_in_def)
  have n: "select_users_by_username_or_email sample_lib (db fresh_state)
             (str_of (reg_username sample_registration))
             (str_of (reg_email sample_registration)) = []"
      "select_users_by_username_or_email sample_lib (db fresh_state)
             (str_of (reg_username sample_registration))
             (str_of (reg_username sample_registration)) = []"
    by (simp_all add: sample_lookup_carol)
  have e: "fail_at env_ok = None"
    by (simp add: env_ok_def)
  have c: "collate_eq sample_lib (str_of (reg_username sample_registration))
             (str_of (reg_username sample_registration))"
    by (simp add: sample_lib_def)
  have h: "bcrypt_compare sample_lib (str_of (reg_password sample_registration))
             (bcrypt_hash sample_lib (str_of (reg_password sample_registration)) 10
                (salt env_ok))"
    by (simp add: sample_lib_def env_ok_def)
  from register_login_roundtrip [OF n sample_registration_ok e e c h, of fresh_state] f
  show ?thesis
    by (simp add: Let_def split_beta api_check_auth_state sample_registration_strings)
qed

text \<open>
  Against claim C8 as stated: the state has no user and the fields are valid, and the
  duplicate check of the registration is rejected; the registration fails, and the login
  that follows, with every query answered, fails as well.
\<close>

theorem roundtrip_rejected_query_counterexample:
  "users (db fresh_state) = []
   \<and> register_fields_ok sample_registration
   \<and> is_failure (fst (api_register sample_lib (env_rejecting 0) sample_registration fresh_state))
   \<and> is_failure (fst (api_login sample_lib env_ok (login_of sample_registration)
         (snd (api_register sample_lib (env_rejecting 0) sample_registration fresh_state))))"
proof -
  have r: "api_register sample_lib (env_rejecting 0) sample_registration fresh_state
          = (res_json (fail_json msg_register_failed), fresh_state)"
    using sample_registration_ok
    by (simp add: api_register_eq register_fields_ok_def env_rejecting_def)
  have l: "api_login sample_lib env_ok (login_of sample_registration) fresh_state
          = (res_json (fail_json msg_bad_credentials), fresh_state)"
    by (simp add: api_login_eq login_of_def sample_registration_def truthy_def
        truthy_json_def env_ok_def sample_lookup_carol)
  show ?thesis
    by (simp add: r l sample_registration_ok res_json_def failure_fail_json)
      (simp add: fresh_state_def)
qed

subsection \<open>The admin check reads the users table\<close>

text \<open>
  Claim C9, as the code has it.  The answer of \<^verbatim>\<open>/api/admin/data\<close> does not depend on the
  username kept in the session: replacing it by any value \<open>x\<close> leaves the response
  unchanged.  For an active session whose lookup query is answered, the status is 403
  exactly when the \<^verbatim>\<open>users\<close> table has no row with the session's user id or the username of
  that row is not "admin".  In particular an active session whose user id matches no row
  is never answered with 401: it gets 403 when the lookup query is answered, and 500 when
  the query is rejected.
\<close>

theorem admin_check_reads_database:
  "fst (api_admin_data E q (s\<lparr>sess := (sess s)\<lparr>sess_username := x\<rparr>\<rparr>))
     = fst (api_admin_data E q s)
   \<and> (logged_in (sess s) \<and> fail_at E \<noteq> Some 0 \<longrightarrow>
        (status (fst (api_admin_data E q s)) = 403)
          = (session_row_names s = [] \<or> hd (session_row_names s) \<noteq> ''admin''))
   \<and> (logged_in (sess s) \<and> session_row_names s = [] \<longrightarrow>
        status (fst (api_admin_data E q s)) \<noteq> 401
        \<and> (fail_at E \<noteq> Some 0 \<longrightarrow>
             api_admin_data E q s = (res_status_json 403 (fail_json msg_forbidden), s))
        \<and> (fail_at E = Some 0 \<longrightarrow>
             api_admin_data E q s = (res_status_json 500 (fail_json msg_system_error), s)))"
proof -
  have "logged_in ((sess s)\<lparr>sess_username := x\<rparr>) = logged_in (sess s)"
    by (simp add: logged_in_def)
  moreover have "session_row_names (s\<lparr>sess := (sess s)\<lparr>sess_username := x\<rparr>\<rparr>)
      = session_row_names s"
    by (simp add: session_row_names_def userId_of_def)
  ultimately show ?thesis
    by (simp add: api_admin_data_eq res_status_json_def res_json_def)
qed

text \<open>
  The session of a user id that has no row (7, in the two-user sample), with the
  session's username set to "admin": 403 when the lookup is answered, 500 when it is
  rejected, and the same response as for the session username "mallory".
\<close>

theorem admin_check_reads_database_witness:
  "fst (api_admin_data env_ok first_pages
          ((state_of two_users_db (session_of 7 ''admin''))
             \<lparr>sess := (sess (state_of two_users_db (session_of 7 ''admin'')))
                        \<lparr>sess_username := Some ''mallory''\<rparr>\<rparr>))
     = fst (api_admin_data env_ok first_pages (state_of two_users_db (session_of 7 ''admin'')))
   \<and> api_admin_data env_ok first_pages (state_of two_users_db (session_of 7 ''admin''))
     = (res_status_json 403 (fail_json msg_forbidden),
        state_of two_users_db (session_of 7 ''admin''))
   \<and> api_admin_data (env_rejecting 0) first_pages
        (state_of two_users_db (session_of 7 ''admin''))
     = (res_status_json 500 (fail_json msg_system_error),
        state_of two_users_db (session_of 7 ''admin''))
   \<and> status (fst (api_admin_data env_ok first_pages
                     (state_of two_users_db (session_of 7 ''admin'')))) = 403"
proof -
  let ?s = "state_of two_users_db (session_of 7 ''admin'')"
  have l: "logged_in (sess ?s)"
    by (simp add: sample_logged_in)
  have r: "session_row_names ?s = []"
    by (simp add: sample_row_names)
  have e: "fail_at env_ok \<noteq> Some 0" "fail_at (env_rejecting 0) = Some 0"
    by (simp_all add: env_ok_def env_rejecting_def)
  from admin_check_reads_database
      [where E = env_ok and q = first_pages and s = ?s and x = "Some ''mallory''"]
    admin_check_reads_database
      [where E = "env_rejecting 0" and q = first_pages and s = ?s and x = "Some ''mallory''"]
    l r e
  show ?thesis
    by blast
qed

text \<open>
  Against claim C9 as stated: the session's user id 7 matches no row, the lookup query
  is rejected, and the answer has status 500, not 403.
\<close>

theorem stale_session_counterexample:
  "logged_in (sess (state_of two_users_db (session_of 7 ''admin'')))
   \<and> session_row_names (state_of two_users_db (session_of 7 ''admin'')) = []
   \<and> status (fst (api_admin_data (env_rejecting 0) first_pages
                     (state_of two_users_db (session_of 7 ''admin'')))) = 500"
  by (simp add: api_admin_data_eq sample_row_names sample_logged_in env_rejecting_def
      res_status_json_def)

subsection \<open>A page parameter that parses to 0\<close>



end
